theory Spec2Isabelle
  imports Complex_Main
begin

section \<open>Python strings\<close>

text \<open>
  A Python \<open>str\<close> is a sequence of Unicode code points; \<open>len\<close>, slicing, \<open>strip\<close> and
  \<open>split\<close> count code points, so a string is modelled as the list of its code points.
  \<open>u\<close> turns an ASCII literal into such a list.
\<close>

type_synonym ustr = "nat list"

definition u :: "string \<Rightarrow> ustr" where
  "u s = map of_char s"

text \<open>Decimal rendering of an \<open>int\<close>, as \<open>str(n)\<close> gives it.\<close>

fun str_nat :: "nat \<Rightarrow> ustr" where
  "str_nat n = (if n < 10 then [48 + n] else str_nat (n div 10) @ [48 + n mod 10])"

declare str_nat.simps [simp del]

definition str_int :: "int \<Rightarrow> ustr" where
  "str_int n = (if n < 0 then 45 # str_nat (nat (- n)) else str_nat (nat n))"

definition startswith :: "ustr \<Rightarrow> ustr \<Rightarrow> bool" where
  "startswith s p = (take (length p) s = p)"

text \<open>\<open>s.split(sep)\<close> and \<open>s.split(sep, 1)\<close> for a separator of one character.\<close>

fun py_split :: "nat \<Rightarrow> ustr \<Rightarrow> ustr list" where
  "py_split sep [] = [[]]"
| "py_split sep (c # cs) =
     (if c = sep then [] # py_split sep cs
      else (case py_split sep cs of [] \<Rightarrow> [[c]] | p # ps \<Rightarrow> (c # p) # ps))"

definition split_once :: "nat \<Rightarrow> ustr \<Rightarrow> ustr list" where
  "split_once sep s =
     (if sep \<in> set s then [takeWhile (\<lambda>c. c \<noteq> sep) s, tl (dropWhile (\<lambda>c. c \<noteq> sep) s)]
      else [s])"

text \<open>Stripping, from both ends, the characters that satisfy \<open>P\<close>.\<close>

definition strip_where :: "(nat \<Rightarrow> bool) \<Rightarrow> ustr \<Rightarrow> ustr" where
  "strip_where P s = rev (dropWhile P (rev (dropWhile P s)))"

section \<open>Python values and exceptions\<close>

text \<open>
  What \<open>response.json()\<close> can return. The type \<open>'f\<close> stands for the runtime's \<open>float\<close>
  (an IEEE double); its arithmetic and its renderings are fields of the runtime below.
  A \<open>dict\<close> is the list of its items; the first binding of a key is the one looked up.
\<close>

datatype 'f pyval =
    PNone
  | PBool bool
  | PInt int
  | PFloat 'f
  | PStr ustr
  | PList "'f pyval list"
  | PDict "(ustr \<times> 'f pyval) list"

datatype exc_kind =
  KeyError | TypeError | IndexError | ValueError | OverflowError | AttributeError | OSError

text \<open>
  An exception raised by the script: its class, the operation that raised it and the
  operands it was applied to. The text \<open>str(e)\<close> of an exception and its traceback are
  renderings of the runtime.
\<close>

datatype 'f pyexc = PyExc exc_kind string "'f pyval list"

definition ebind :: "'e + 'a \<Rightarrow> ('a \<Rightarrow> 'e + 'b) \<Rightarrow> 'e + 'b" where
  "ebind m f = (case m of Inl e \<Rightarrow> Inl e | Inr v \<Rightarrow> f v)"

section \<open>The Python runtime\<close>

text \<open>
  The parts of the interpreter the script relies on and that are not in its source:
  the Unicode tables for characters beyond ASCII, the limit on the digits of an integer
  literal (\<open>0\<close> is no limit), double arithmetic, and the renderings of doubles, of
  containers and of exceptions. \<open>float_overflows n\<close> says that the int \<open>n\<close> is too large
  for a double (\<open>OverflowError\<close>), \<open>truediv_overflows a b\<close> the same of the quotient
  \<open>a / b\<close> of two ints.
\<close>

record 'f runtime =
  uni_isspace :: "nat \<Rightarrow> bool"
  uni_lower :: "ustr \<Rightarrow> ustr"
  uni_int :: "ustr \<Rightarrow> int option"
  int_max_str_digits :: nat
  float_of_str :: "ustr \<Rightarrow> 'f option"
  float_literal :: "string \<Rightarrow> 'f"
  float_of_int :: "int \<Rightarrow> 'f"
  float_overflows :: "int \<Rightarrow> bool"
  int_truediv :: "int \<Rightarrow> int \<Rightarrow> 'f"
  truediv_overflows :: "int \<Rightarrow> int \<Rightarrow> bool"
  float_add :: "'f \<Rightarrow> 'f \<Rightarrow> 'f"
  float_mul :: "'f \<Rightarrow> 'f \<Rightarrow> 'f"
  float_div :: "'f \<Rightarrow> 'f \<Rightarrow> 'f"
  float_gt_int :: "'f \<Rightarrow> int \<Rightarrow> bool"
  float_as_int :: "'f \<Rightarrow> int option"
  float_repr :: "'f \<Rightarrow> ustr"
  float_format_1f :: "'f \<Rightarrow> ustr"
  container_repr :: "'f pyval \<Rightarrow> ustr"
  exc_str :: "'f pyexc \<Rightarrow> ustr"
  format_exc :: "'f pyexc \<Rightarrow> ustr"

subsection \<open>Operators on values\<close>

definition int_of_bool :: "bool \<Rightarrow> int" where
  "int_of_bool b = (if b then 1 else 0)"

text \<open>\<open>v[k]\<close> for a string key \<open>k\<close>.\<close>

definition py_getitem :: "'f pyval \<Rightarrow> ustr \<Rightarrow> 'f pyexc + 'f pyval" where
  "py_getitem v k =
     (case v of
        PDict kvs \<Rightarrow>
          (case map_of kvs k of
             None \<Rightarrow> Inl (PyExc KeyError ''getitem'' [v, PStr k])
           | Some x \<Rightarrow> Inr x)
      | _ \<Rightarrow> Inl (PyExc TypeError ''getitem'' [v, PStr k]))"

text \<open>\<open>v[i]\<close> for an index \<open>i \<ge> 0\<close>; a JSON object has string keys only.\<close>

definition py_index :: "'f pyval \<Rightarrow> nat \<Rightarrow> 'f pyexc + 'f pyval" where
  "py_index v i =
     (case v of
        PList xs \<Rightarrow>
          (if i < length xs then Inr (xs ! i)
           else Inl (PyExc IndexError ''getitem'' [v, PInt (int i)]))
      | PStr s \<Rightarrow>
          (if i < length s then Inr (PStr [s ! i])
           else Inl (PyExc IndexError ''getitem'' [v, PInt (int i)]))
      | PDict kvs \<Rightarrow> Inl (PyExc KeyError ''getitem'' [v, PInt (int i)])
      | _ \<Rightarrow> Inl (PyExc TypeError ''getitem'' [v, PInt (int i)]))"

definition py_len :: "'f pyval \<Rightarrow> 'f pyexc + nat" where
  "py_len v =
     (case v of
        PList xs \<Rightarrow> Inr (length xs)
      | PStr s \<Rightarrow> Inr (length s)
      | PDict kvs \<Rightarrow> Inr (length (remdups (map fst kvs)))
      | _ \<Rightarrow> Inl (PyExc TypeError ''len'' [v]))"

text \<open>
  \<open>format(v, "")\<close>, what an f-string field \<open>{v}\<close> without a format specification
  inserts: \<open>str(v)\<close>. Values come from \<open>response.json()\<close>, which already refused every
  int beyond the digit limit, so rendering an int does not fail.
\<close>

definition py_str :: "'f runtime \<Rightarrow> 'f pyval \<Rightarrow> ustr" where
  "py_str rt v =
     (case v of
        PNone \<Rightarrow> u ''None''
      | PBool b \<Rightarrow> (if b then u ''True'' else u ''False'')
      | PInt n \<Rightarrow> str_int n
      | PFloat x \<Rightarrow> float_repr rt x
      | PStr s \<Rightarrow> s
      | _ \<Rightarrow> container_repr rt v)"

text \<open>\<open>format(v, ".1f")\<close>: an int is converted to a double first.\<close>

definition py_format_1f :: "'f runtime \<Rightarrow> 'f pyval \<Rightarrow> 'f pyexc + ustr" where
  "py_format_1f rt v =
     (case v of
        PFloat x \<Rightarrow> Inr (float_format_1f rt x)
      | PInt n \<Rightarrow>
          (if float_overflows rt n then Inl (PyExc OverflowError ''format'' [v])
           else Inr (float_format_1f rt (float_of_int rt n)))
      | PBool b \<Rightarrow> Inr (float_format_1f rt (float_of_int rt (int_of_bool b)))
      | PStr s \<Rightarrow> Inl (PyExc ValueError ''format'' [v])
      | _ \<Rightarrow> Inl (PyExc TypeError ''format'' [v]))"

text \<open>\<open>v * k\<close>, \<open>v / k\<close>, \<open>v + k\<close> and \<open>v > k\<close> for an int constant \<open>k\<close> of the source.\<close>

definition py_mul_int :: "'f runtime \<Rightarrow> 'f pyval \<Rightarrow> int \<Rightarrow> 'f pyexc + 'f pyval" where
  "py_mul_int rt v k =
     (case v of
        PInt n \<Rightarrow> Inr (PInt (n * k))
      | PBool b \<Rightarrow> Inr (PInt (int_of_bool b * k))
      | PFloat x \<Rightarrow> Inr (PFloat (float_mul rt x (float_of_int rt k)))
      | PStr s \<Rightarrow> Inr (PStr (concat (replicate (nat k) s)))
      | PList xs \<Rightarrow> Inr (PList (concat (replicate (nat k) xs)))
      | _ \<Rightarrow> Inl (PyExc TypeError ''mul'' [v, PInt k]))"

definition py_truediv_int :: "'f runtime \<Rightarrow> 'f pyval \<Rightarrow> int \<Rightarrow> 'f pyexc + 'f pyval" where
  "py_truediv_int rt v k =
     (case v of
        PInt n \<Rightarrow>
          (if truediv_overflows rt n k then Inl (PyExc OverflowError ''truediv'' [v, PInt k])
           else Inr (PFloat (int_truediv rt n k)))
      | PBool b \<Rightarrow> Inr (PFloat (int_truediv rt (int_of_bool b) k))
      | PFloat x \<Rightarrow> Inr (PFloat (float_div rt x (float_of_int rt k)))
      | _ \<Rightarrow> Inl (PyExc TypeError ''truediv'' [v, PInt k]))"

definition py_add_int :: "'f runtime \<Rightarrow> 'f pyval \<Rightarrow> int \<Rightarrow> 'f pyexc + 'f pyval" where
  "py_add_int rt v k =
     (case v of
        PInt n \<Rightarrow> Inr (PInt (n + k))
      | PBool b \<Rightarrow> Inr (PInt (int_of_bool b + k))
      | PFloat x \<Rightarrow> Inr (PFloat (float_add rt x (float_of_int rt k)))
      | _ \<Rightarrow> Inl (PyExc TypeError ''add'' [v, PInt k]))"

definition py_gt_int :: "'f runtime \<Rightarrow> 'f pyval \<Rightarrow> int \<Rightarrow> 'f pyexc + bool" where
  "py_gt_int rt v k =
     (case v of
        PInt n \<Rightarrow> Inr (n > k)
      | PBool b \<Rightarrow> Inr (int_of_bool b > k)
      | PFloat x \<Rightarrow> Inr (float_gt_int rt x k)
      | _ \<Rightarrow> Inl (PyExc TypeError ''gt'' [v, PInt k]))"

text \<open>\<open>v * c\<close> for a float constant \<open>c\<close> of the source.\<close>

definition py_mul_float :: "'f runtime \<Rightarrow> 'f pyval \<Rightarrow> 'f \<Rightarrow> 'f pyexc + 'f pyval" where
  "py_mul_float rt v c =
     (case v of
        PInt n \<Rightarrow>
          (if float_overflows rt n then Inl (PyExc OverflowError ''mul'' [v, PFloat c])
           else Inr (PFloat (float_mul rt (float_of_int rt n) c)))
      | PBool b \<Rightarrow> Inr (PFloat (float_mul rt (float_of_int rt (int_of_bool b)) c))
      | PFloat x \<Rightarrow> Inr (PFloat (float_mul rt x c))
      | _ \<Rightarrow> Inl (PyExc TypeError ''mul'' [v, PFloat c]))"

text \<open>
  The int a value equals as a key of a dict with int keys: \<open>True == 1\<close>, \<open>2.0 == 2\<close>;
  \<open>None\<close> and strings equal no int; lists and dicts are unhashable.
\<close>

definition int_key :: "'f runtime \<Rightarrow> 'f pyval \<Rightarrow> 'f pyexc + int option" where
  "int_key rt v =
     (case v of
        PInt n \<Rightarrow> Inr (Some n)
      | PBool b \<Rightarrow> Inr (Some (int_of_bool b))
      | PFloat x \<Rightarrow> Inr (float_as_int rt x)
      | PNone \<Rightarrow> Inr None
      | PStr s \<Rightarrow> Inr None
      | _ \<Rightarrow> Inl (PyExc TypeError ''hash'' [v]))"

text \<open>\<open>d.get(key, default)\<close> on a dict with int keys.\<close>

definition dict_get :: "'f runtime \<Rightarrow> (int \<times> 'a) list \<Rightarrow> 'f pyval \<Rightarrow> 'a \<Rightarrow> 'f pyexc + 'a" where
  "dict_get rt d key dflt =
     ebind (int_key rt key)
       (\<lambda>k. case k of
          None \<Rightarrow> Inr dflt
        | Some n \<Rightarrow> (case map_of d n of None \<Rightarrow> Inr dflt | Some x \<Rightarrow> Inr x))"

section \<open>Constants\<close>

definition WMO_WEATHER_CODES :: "(int \<times> ustr) list" where
  "WMO_WEATHER_CODES =
     [(0, [0x2600, 0xFE0F]),
      (1, [0x1F324, 0xFE0F]),
      (2, [0x26C5]),
      (3, [0x2601, 0xFE0F]),
      (45, [0x1F32B, 0xFE0F]),
      (48, [0x1F32B, 0xFE0F]),
      (51, [0x1F327, 0xFE0F]),
      (53, [0x1F327, 0xFE0F]),
      (55, [0x1F327, 0xFE0F]),
      (61, [0x1F327, 0xFE0F]),
      (63, [0x1F327, 0xFE0F]),
      (65, [0x1F327, 0xFE0F]),
      (80, [0x1F326, 0xFE0F]),
      (81, [0x1F326, 0xFE0F]),
      (82, [0x1F326, 0xFE0F]),
      (95, [0x26C8, 0xFE0F]),
      (96, [0x26C8, 0xFE0F]),
      (99, [0x26C8, 0xFE0F])]"

section \<open>Functions\<close>

definition get_weather_icon :: "'f runtime \<Rightarrow> 'f pyval \<Rightarrow> 'f pyexc + ustr" where
  "get_weather_icon rt weather_code = dict_get rt WMO_WEATHER_CODES weather_code [0x2753]"

definition descriptions :: "(int \<times> ustr) list" where
  "descriptions =
     [(0, u ''Clear sky''),
      (1, u ''Mainly clear''),
      (2, u ''Partly cloudy''),
      (3, u ''Overcast''),
      (45, u ''Fog''),
      (48, u ''Depositing rime fog''),
      (51, u ''Light drizzle''),
      (53, u ''Moderate drizzle''),
      (55, u ''Dense drizzle''),
      (61, u ''Slight rain''),
      (63, u ''Moderate rain''),
      (65, u ''Heavy rain''),
      (80, u ''Slight rain showers''),
      (81, u ''Moderate rain showers''),
      (82, u ''Violent rain showers''),
      (95, u ''Thunderstorm''),
      (96, u ''Thunderstorm with slight hail''),
      (99, u ''Thunderstorm with heavy hail'')]"

definition get_description :: "'f runtime \<Rightarrow> 'f pyval \<Rightarrow> 'f pyexc + ustr" where
  "get_description rt weather_code = dict_get rt descriptions weather_code (u ''Unknown'')"

text \<open>
  The configuration the main script resolves from the environment; the functions below
  read \<open>temp_unit\<close> and \<open>windspeed_unit\<close> as globals.
\<close>

record 'f config =
  temp_unit :: ustr
  time_format :: ustr
  windspeed_unit :: ustr
  show_icon :: bool
  show_location :: bool
  show_today_details :: bool
  FORECAST_DAYS :: int
  get_location :: ustr
  lat :: 'f
  lon :: 'f

text \<open>The expression \<open>v * 9/5 + 32\<close>, evaluated left to right.\<close>

definition times_9_by_5_plus_32 :: "'f runtime \<Rightarrow> 'f pyval \<Rightarrow> 'f pyexc + 'f pyval" where
  "times_9_by_5_plus_32 rt v =
     ebind (py_mul_int rt v 9) (\<lambda>a.
     ebind (py_truediv_int rt a 5) (\<lambda>b.
     py_add_int rt b 32))"

definition get_temperature :: "'f runtime \<Rightarrow> 'f config \<Rightarrow> 'f pyval \<Rightarrow> 'f pyexc + ustr" where
  "get_temperature rt cfg current_data =
     (if temp_unit cfg = u ''c'' then
        ebind (py_getitem current_data (u ''temperature_2m'')) (\<lambda>t.
        Inr (py_str rt t @ [0xB0] @ u ''C''))
      else
        ebind (py_getitem current_data (u ''temperature_2m'')) (\<lambda>t.
        ebind (times_9_by_5_plus_32 rt t) (\<lambda>temp_f.
        ebind (py_format_1f rt temp_f) (\<lambda>s.
        Inr (s @ [0xB0] @ u ''F'')))))"

text \<open>The value \<open>feels_like\<close> of \<open>get_feels_like\<close>, before it is rendered.\<close>

definition feels_like_value :: "'f runtime \<Rightarrow> 'f pyval \<Rightarrow> 'f pyexc + 'f pyval" where
  "feels_like_value rt current_data =
     ebind (py_getitem current_data (u ''temperature_2m'')) (\<lambda>temp.
     ebind (py_getitem current_data (u ''relative_humidity_2m'')) (\<lambda>humidity.
     ebind (py_gt_int rt humidity 70) (\<lambda>humid.
     if humid then py_add_int rt temp 2 else Inr temp)))"

definition get_feels_like :: "'f runtime \<Rightarrow> 'f config \<Rightarrow> 'f pyval \<Rightarrow> 'f pyexc + ustr" where
  "get_feels_like rt cfg current_data =
     ebind (feels_like_value rt current_data) (\<lambda>feels_like.
     if temp_unit cfg = u ''c'' then
       ebind (py_format_1f rt feels_like) (\<lambda>s.
       Inr (s @ [0xB0] @ u ''C''))
     else
       ebind (times_9_by_5_plus_32 rt feels_like) (\<lambda>feels_like_f.
       ebind (py_format_1f rt feels_like_f) (\<lambda>s.
       Inr (s @ [0xB0] @ u ''F''))))"

definition get_wind_speed :: "'f runtime \<Rightarrow> 'f config \<Rightarrow> 'f pyval \<Rightarrow> 'f pyexc + ustr" where
  "get_wind_speed rt cfg current_data =
     (if windspeed_unit cfg = u ''km/h'' then
        ebind (py_getitem current_data (u ''wind_speed_10m'')) (\<lambda>w.
        Inr (py_str rt w @ u '' km/h''))
      else
        ebind (py_getitem current_data (u ''wind_speed_10m'')) (\<lambda>w.
        ebind (py_mul_float rt w (float_literal rt ''0.621371'')) (\<lambda>wind_mph.
        ebind (py_format_1f rt wind_mph) (\<lambda>s.
        Inr (s @ u '' mph'')))))"

section \<open>Built-in string functions\<close>

text \<open>
  \<open>str.isspace\<close> of one character: the ASCII part is fixed, the rest is the Unicode
  table of the runtime.
\<close>

definition isspace :: "'f runtime \<Rightarrow> nat \<Rightarrow> bool" where
  "isspace rt c =
     (if c < 128 then (9 \<le> c \<and> c \<le> 13) \<or> (28 \<le> c \<and> c \<le> 32) else uni_isspace rt c)"

definition strip :: "'f runtime \<Rightarrow> ustr \<Rightarrow> ustr" where
  "strip rt s = strip_where (isspace rt) s"

text \<open>\<open>s.strip(chars)\<close>.\<close>

definition strip_chars :: "ustr \<Rightarrow> ustr \<Rightarrow> ustr" where
  "strip_chars chars s = strip_where (\<lambda>c. c \<in> set chars) s"

definition lower :: "'f runtime \<Rightarrow> ustr \<Rightarrow> ustr" where
  "lower rt s =
     (if \<forall>c \<in> set s. c < 128 then map (\<lambda>c. if 65 \<le> c \<and> c \<le> 90 then c + 32 else c) s
      else uni_lower rt s)"

subsection \<open>\<open>int(s)\<close>\<close>

text \<open>
  \<open>int(s)\<close> of a string in base 10; \<open>None\<close> is \<open>ValueError\<close>, the only exception it
  raises on a string. An ASCII string is: whitespace, an optional sign, digits with
  single underscores between them, whitespace. A string with a character beyond ASCII
  goes through the Unicode tables of the runtime.
\<close>

definition ascii_space :: "nat \<Rightarrow> bool" where
  "ascii_space c = ((9 \<le> c \<and> c \<le> 13) \<or> c = 32)"

definition is_digit :: "nat \<Rightarrow> bool" where
  "is_digit c = (48 \<le> c \<and> c \<le> 57)"

fun no_double_underscore :: "ustr \<Rightarrow> bool" where
  "no_double_underscore (a # b # r) = (\<not> (a = 95 \<and> b = 95) \<and> no_double_underscore (b # r))"
| "no_double_underscore _ = True"

definition valid_digits :: "ustr \<Rightarrow> bool" where
  "valid_digits b =
     (b \<noteq> [] \<and> hd b \<noteq> 95 \<and> last b \<noteq> 95 \<and> list_all (\<lambda>c. is_digit c \<or> c = 95) b
      \<and> no_double_underscore b)"

definition digits_value :: "ustr \<Rightarrow> nat" where
  "digits_value b = foldl (\<lambda>a c. 10 * a + (c - 48)) 0 (filter is_digit b)"

definition too_many_digits :: "'f runtime \<Rightarrow> ustr \<Rightarrow> bool" where
  "too_many_digits rt b =
     (0 < int_max_str_digits rt \<and> int_max_str_digits rt < length (filter is_digit b))"

definition ascii_int :: "'f runtime \<Rightarrow> ustr \<Rightarrow> int option" where
  "ascii_int rt s =
     (let t = dropWhile ascii_space s;
          negative = (t \<noteq> [] \<and> hd t = 45);
          t1 = (if t \<noteq> [] \<and> (hd t = 43 \<or> hd t = 45) then tl t else t);
          b = rev (dropWhile ascii_space (rev t1))
      in if valid_digits b \<and> \<not> too_many_digits rt b
         then Some (if negative then - int (digits_value b) else int (digits_value b))
         else None)"

definition py_int :: "'f runtime \<Rightarrow> ustr \<Rightarrow> int option" where
  "py_int rt s = (if \<forall>c \<in> set s. c < 128 then ascii_int rt s else uni_int rt s)"

section \<open>Environment files\<close>

type_synonym environ = "ustr \<rightharpoonup> ustr"

text \<open>
  \<open>os.environ[key] = value\<close>. Both strings are encoded for the operating system (lone
  surrogates other than the escapes U+DC80..U+DCFF cannot be); \<open>putenv\<close> refuses an
  embedded null character and a name with \<open>=\<close> in it with \<open>ValueError\<close>, and the
  operating system refuses the empty name (\<open>OSError\<close>).
\<close>

definition encodable :: "nat \<Rightarrow> bool" where
  "encodable c = (\<not> (0xD800 \<le> c \<and> c < 0xDC80) \<and> \<not> (0xDD00 \<le> c \<and> c < 0xE000))"

definition environ_set :: "environ \<Rightarrow> ustr \<Rightarrow> ustr \<Rightarrow> 'f pyexc + environ" where
  "environ_set env key v =
     (if \<not> list_all encodable (key @ v) then Inl (PyExc ValueError ''encode'' [PStr key, PStr v])
      else if 0 \<in> set key \<or> 0 \<in> set v \<or> 61 \<in> set key
        then Inl (PyExc ValueError ''putenv'' [PStr key, PStr v])
      else if key = [] then Inl (PyExc OSError ''putenv'' [PStr key, PStr v])
      else Inr (env(key \<mapsto> v)))"

text \<open>
  What opening and reading a file gives: \<open>NoFile\<close> when \<open>open\<close> raises (no such file, no
  permission, a directory), \<open>File ls\<close> when the iteration yields the lines \<open>ls\<close> and
  ends, \<open>BrokenFile ls\<close> when it yields \<open>ls\<close> and then raises (bytes that are not UTF-8,
  an input error).
\<close>

datatype env_file = NoFile | File "ustr list" | BrokenFile "ustr list"

text \<open>The body of the \<open>for\<close> loop of \<open>load_env_file\<close>, for one line.\<close>

definition env_line :: "'f runtime \<Rightarrow> ustr \<Rightarrow> environ \<Rightarrow> 'f pyexc + environ" where
  "env_line rt line env =
     (if strip rt line \<noteq> [] \<and> \<not> startswith line [35] then
        (let line1 = (if startswith line (u ''export '') then drop (length (u ''export '')) line
                      else line)
         in case split_once 61 (strip rt line1) of
              [key, v] \<Rightarrow> environ_set env key (strip_chars [34] v)
            | _ \<Rightarrow> Inl (PyExc ValueError ''unpack'' [PStr line1]))
      else Inr env)"

text \<open>
  The loop: the exception of a line ends it, with the environment as the lines before
  left it.
\<close>

fun env_lines :: "'f runtime \<Rightarrow> ustr list \<Rightarrow> environ \<Rightarrow> 'f pyexc option \<times> environ" where
  "env_lines rt [] env = (None, env)"
| "env_lines rt (l # ls) env =
     (case env_line rt l env of
        Inl e \<Rightarrow> (Some e, env)
      | Inr env1 \<Rightarrow> env_lines rt ls env1)"

text \<open>The \<open>try\<close> block of \<open>load_env_file\<close>: the exception it ends with, if any.\<close>

definition load_env_file_try :: "'f runtime \<Rightarrow> env_file \<Rightarrow> environ \<Rightarrow> 'f pyexc option \<times> environ" where
  "load_env_file_try rt f env =
     (case f of
        NoFile \<Rightarrow> (Some (PyExc OSError ''open'' []), env)
      | File ls \<Rightarrow> env_lines rt ls env
      | BrokenFile ls \<Rightarrow>
          (case env_lines rt ls env of
             (None, env1) \<Rightarrow> (Some (PyExc ValueError ''read'' []), env1)
           | (Some e, env1) \<Rightarrow> (Some e, env1)))"

text \<open>
  \<open>load_env_file\<close>: \<open>except Exception: pass\<close> catches every exception of the block. The
  first component is the exception that leaves the function.
\<close>

definition load_env_file ::
  "'f runtime \<Rightarrow> (ustr \<Rightarrow> env_file) \<Rightarrow> ustr \<Rightarrow> environ \<Rightarrow> 'f pyexc option \<times> environ" where
  "load_env_file rt fs filepath env =
     (case load_env_file_try rt (fs filepath) env of
        (None, env1) \<Rightarrow> (None, env1)
      | (Some e, env1) \<Rightarrow> (None, env1))"

section \<open>Main script: configuration\<close>

definition getenv :: "environ \<Rightarrow> ustr \<Rightarrow> ustr \<Rightarrow> ustr" where
  "getenv env name dflt = (case env name of None \<Rightarrow> dflt | Some v \<Rightarrow> v)"

text \<open>\<open>s.lower() in ("true", "1", "t", "y", "yes")\<close>.\<close>

definition truthy :: "'f runtime \<Rightarrow> ustr \<Rightarrow> bool" where
  "truthy rt s = (lower rt s \<in> set [u ''true'', u ''1'', u ''t'', u ''y'', u ''yes''])"

text \<open>
  \<open>x, y = map(f, xs)\<close>, where \<open>f\<close> may raise (\<open>None\<close>): the items are computed one by
  one, a third item is asked for to see that there is none, and any exception
  (of \<open>f\<close>, too few values, too many values) gives \<open>None\<close>.
\<close>

definition unpack2 :: "('a \<Rightarrow> 'b option) \<Rightarrow> 'a list \<Rightarrow> ('b \<times> 'b) option" where
  "unpack2 f xs =
     (case xs of
        [] \<Rightarrow> None
      | a # r \<Rightarrow>
          (case f a of
             None \<Rightarrow> None
           | Some x \<Rightarrow>
               (case r of
                  [] \<Rightarrow> None
                | b # r2 \<Rightarrow>
                    (case f b of
                       None \<Rightarrow> None
                     | Some y \<Rightarrow> (case r2 of [] \<Rightarrow> Some (x, y) | c # r3 \<Rightarrow> None)))))"

definition default_location :: "'f runtime \<Rightarrow> 'f \<times> 'f" where
  "default_location rt = (float_literal rt ''48.8566'', float_literal rt ''2.3522'')"

text \<open>The \<open>try\<close> statement that sets \<open>lat, lon\<close>.\<close>

definition parse_location :: "'f runtime \<Rightarrow> ustr \<Rightarrow> 'f \<times> 'f" where
  "parse_location rt s =
     (case unpack2 (float_of_str rt) (py_split 44 s) of
        None \<Rightarrow> default_location rt
      | Some p \<Rightarrow> p)"

text \<open>The \<open>try\<close> statement that sets \<open>FORECAST_DAYS\<close>, then its range check.\<close>

definition parse_forecast_days :: "'f runtime \<Rightarrow> ustr \<Rightarrow> int" where
  "parse_forecast_days rt s = (case py_int rt s of None \<Rightarrow> 3 | Some n \<Rightarrow> n)"

definition check_forecast_days :: "int \<Rightarrow> int" where
  "check_forecast_days n = (if 1 \<le> n \<and> n < 4 then n else 3)"

definition resolve_forecast_days :: "'f runtime \<Rightarrow> environ \<Rightarrow> int" where
  "resolve_forecast_days rt env =
     check_forecast_days
       (parse_forecast_days rt (getenv env (u ''WEATHER_FORECAST_DAYS'') (u ''3'')))"

definition one_of :: "ustr list \<Rightarrow> ustr \<Rightarrow> ustr \<Rightarrow> ustr" where
  "one_of allowed dflt s = (if s \<in> set allowed then s else dflt)"

definition resolve_config :: "'f runtime \<Rightarrow> environ \<Rightarrow> 'f config" where
  "resolve_config rt env =
     \<lparr> temp_unit =
         one_of [u ''c'', u ''f''] (u ''c'')
           (lower rt (getenv env (u ''WEATHER_TEMPERATURE_UNIT'') (u ''c''))),
       time_format =
         one_of [u ''12h'', u ''24h''] (u ''12h'')
           (lower rt (getenv env (u ''WEATHER_TIME_FORMAT'') (u ''12h''))),
       windspeed_unit =
         one_of [u ''km/h'', u ''mph''] (u ''km/h'')
           (lower rt (getenv env (u ''WEATHER_WINDSPEED_UNIT'') (u ''km/h''))),
       show_icon = truthy rt (getenv env (u ''WEATHER_SHOW_ICON'') (u ''True'')),
       show_location = truthy rt (getenv env (u ''WEATHER_SHOW_LOCATION'') (u ''True'')),
       show_today_details = truthy rt (getenv env (u ''WEATHER_SHOW_TODAY_DETAILS'') (u ''True'')),
       FORECAST_DAYS = resolve_forecast_days rt env,
       get_location = getenv env (u ''WEATHER_LOCATION'') (u ''48.8566,2.3522''),
       lat = fst (parse_location rt (getenv env (u ''WEATHER_LOCATION'') (u ''48.8566,2.3522''))),
       lon = snd (parse_location rt (getenv env (u ''WEATHER_LOCATION'') (u ''48.8566,2.3522''))) \<rparr>"

definition str_bool :: "bool \<Rightarrow> ustr" where
  "str_bool b = (if b then u ''True'' else u ''False'')"

definition debug_lines :: "'f config \<Rightarrow> ustr list" where
  "debug_lines cfg =
     [u ''DEBUG: temp_unit: '' @ temp_unit cfg,
      u ''DEBUG: time_format: '' @ time_format cfg,
      u ''DEBUG: windspeed_unit: '' @ windspeed_unit cfg,
      u ''DEBUG: show_icon: '' @ str_bool (show_icon cfg),
      u ''DEBUG: show_location: '' @ str_bool (show_location cfg),
      u ''DEBUG: show_today_details: '' @ str_bool (show_today_details cfg),
      u ''DEBUG: FORECAST_DAYS: '' @ str_int (FORECAST_DAYS cfg),
      u ''DEBUG: get_location: '' @ get_location cfg]"

definition URL :: "'f runtime \<Rightarrow> 'f config \<Rightarrow> ustr" where
  "URL rt cfg =
     u ''https://api.open-meteo.com/v1/forecast?''
     @ u ''latitude='' @ float_repr rt (lat cfg) @ u ''&longitude='' @ float_repr rt (lon cfg)
     @ u ''&current=temperature_2m,weathercode,wind_speed_10m,relative_humidity_2m''
     @ u ''&daily=weathercode,temperature_2m_max,temperature_2m_min,sunrise,sunset''
     @ u ''&timezone=auto''"

text \<open>\<open>os.path.join(a, *p)\<close> on POSIX.\<close>

fun path_join :: "ustr \<Rightarrow> ustr list \<Rightarrow> ustr" where
  "path_join a [] = a"
| "path_join a (b # bs) =
     path_join (if startswith b [47] then b
                else if a = [] \<or> last a = 47 then a @ b
                else a @ [47] @ b) bs"

section \<open>Main script: processing the payload\<close>

text \<open>
  The dict \<open>data\<close>, in insertion order, as \<open>json.dumps\<close> writes it. \<open>dict_set\<close> is
  \<open>d[k] = v\<close>, \<open>dict_read\<close> is \<open>d[k]\<close>, \<open>dict_append d k rhs\<close> is \<open>d[k] += rhs\<close>,
  which reads \<open>d[k]\<close> before it evaluates \<open>rhs\<close>.
\<close>

type_synonym data = "(ustr \<times> ustr) list"

fun dict_set :: "data \<Rightarrow> ustr \<Rightarrow> ustr \<Rightarrow> data" where
  "dict_set [] k v = [(k, v)]"
| "dict_set ((k1, v1) # d) k v = (if k1 = k then (k, v) # d else (k1, v1) # dict_set d k v)"

definition dict_read :: "data \<Rightarrow> ustr \<Rightarrow> 'f pyexc + ustr" where
  "dict_read d k =
     (case map_of d k of None \<Rightarrow> Inl (PyExc KeyError ''getitem'' [PStr k]) | Some v \<Rightarrow> Inr v)"

definition dict_append :: "data \<Rightarrow> ustr \<Rightarrow> 'f pyexc + ustr \<Rightarrow> 'f pyexc + data" where
  "dict_append d k rhs =
     ebind (dict_read d k) (\<lambda>old.
     ebind rhs (\<lambda>s.
     Inr (dict_set d k (old @ s))))"

text \<open>
  A statement inside the \<open>try\<close> block: when it raises, the exception leaves the block
  together with \<open>data\<close> as it is at that moment.
\<close>

definition attempt :: "'e + 'a \<Rightarrow> data \<Rightarrow> ('a \<Rightarrow> ('e \<times> data) + 'b) \<Rightarrow> ('e \<times> data) + 'b" where
  "attempt m d f = (case m of Inl e \<Rightarrow> Inl (e, d) | Inr v \<Rightarrow> f v)"

text \<open>\<open>v.split("T")[1][:5]\<close>.\<close>

definition time_of_day :: "'f pyval \<Rightarrow> 'f pyexc + ustr" where
  "time_of_day v =
     (case v of
        PStr s \<Rightarrow>
          (case py_split 84 s of
             a # b # r \<Rightarrow> Inr (take 5 b)
           | _ \<Rightarrow> Inl (PyExc IndexError ''getitem'' [v, PInt 1]))
      | _ \<Rightarrow> Inl (PyExc AttributeError ''split'' [v]))"

text \<open>\<open>max_temp\<close> and \<open>min_temp\<close> of the forecast loop, for the daily array \<open>key\<close>.\<close>

definition daily_temp :: "'f runtime \<Rightarrow> 'f config \<Rightarrow> 'f pyval \<Rightarrow> ustr \<Rightarrow> nat \<Rightarrow> 'f pyexc + ustr" where
  "daily_temp rt cfg daily key i =
     (if temp_unit cfg = u ''c'' then
        ebind (py_getitem daily key) (\<lambda>xs.
        ebind (py_index xs i) (\<lambda>t.
        Inr (py_str rt t @ [0xB0] @ u ''C'')))
      else
        ebind (py_getitem daily key) (\<lambda>xs.
        ebind (py_index xs i) (\<lambda>t.
        ebind (times_9_by_5_plus_32 rt t) (\<lambda>t_f.
        ebind (py_format_1f rt t_f) (\<lambda>s.
        Inr (s @ [0xB0] @ u ''F''))))))"

definition day_label :: "nat \<Rightarrow> ustr" where
  "day_label i = (if i = 0 then u ''Today'' else u ''Day '' @ str_int (int i + 1))"

text \<open>The four strings one iteration of the forecast loop appends to the tooltip.\<close>

definition forecast_lines :: "'f runtime \<Rightarrow> 'f config \<Rightarrow> 'f pyval \<Rightarrow> nat \<Rightarrow> 'f pyexc + ustr list" where
  "forecast_lines rt cfg daily i =
     ebind (ebind (py_getitem daily (u ''time'')) (\<lambda>xs. py_index xs i)) (\<lambda>date.
     ebind (ebind (py_getitem daily (u ''weathercode'')) (\<lambda>xs.
            ebind (py_index xs i) (get_description rt))) (\<lambda>weather_desc.
     ebind (ebind (py_getitem daily (u ''weathercode'')) (\<lambda>xs.
            ebind (py_index xs i) (get_weather_icon rt))) (\<lambda>weather_icon.
     ebind (daily_temp rt cfg daily (u ''temperature_2m_max'') i) (\<lambda>max_temp.
     ebind (daily_temp rt cfg daily (u ''temperature_2m_min'') i) (\<lambda>min_temp.
     ebind (ebind (py_getitem daily (u ''sunrise'')) (\<lambda>xs.
            ebind (py_index xs i) time_of_day)) (\<lambda>sunrise.
     ebind (ebind (py_getitem daily (u ''sunset'')) (\<lambda>xs.
            ebind (py_index xs i) time_of_day)) (\<lambda>sunset.
     Inr [[10] @ u ''<b>'' @ day_label i @ u '' ('' @ py_str rt date @ u '')</b>'' @ [10],
          weather_icon @ u '' '' @ weather_desc @ [10],
          [0x2B06, 0xFE0F] @ u '' '' @ max_temp @ u '' '' @ [0x2B07, 0xFE0F] @ u '' ''
            @ min_temp @ [10],
          [0x1F305] @ u '' '' @ sunrise @ u '' '' @ [0x1F307] @ u '' '' @ sunset @ [10]])))))))"

text \<open>One iteration: everything that can raise is computed before the first append.\<close>

definition forecast_day ::
  "'f runtime \<Rightarrow> 'f config \<Rightarrow> 'f pyval \<Rightarrow> nat \<Rightarrow> data \<Rightarrow> ('f pyexc \<times> data) + data" where
  "forecast_day rt cfg daily i d =
     attempt (forecast_lines rt cfg daily i) d (\<lambda>ls.
     attempt (dict_append d (u ''tooltip'') (Inr (ls ! 0))) d (\<lambda>d1.
     attempt (dict_append d1 (u ''tooltip'') (Inr (ls ! 1))) d1 (\<lambda>d2.
     attempt (dict_append d2 (u ''tooltip'') (Inr (ls ! 2))) d2 (\<lambda>d3.
     attempt (dict_append d3 (u ''tooltip'') (Inr (ls ! 3))) d3 Inr))))"

fun forecast_loop ::
  "'f runtime \<Rightarrow> 'f config \<Rightarrow> 'f pyval \<Rightarrow> nat list \<Rightarrow> data \<Rightarrow> ('f pyexc \<times> data) + data" where
  "forecast_loop rt cfg daily [] d = Inr d"
| "forecast_loop rt cfg daily (i # rest) d =
     (case forecast_day rt cfg daily i d of
        Inl x \<Rightarrow> Inl x
      | Inr d1 \<Rightarrow> forecast_loop rt cfg daily rest d1)"

text \<open>\<open>range(min(FORECAST_DAYS, n))\<close>.\<close>

definition forecast_range :: "'f config \<Rightarrow> nat \<Rightarrow> nat list" where
  "forecast_range cfg n = [0..<nat (min (FORECAST_DAYS cfg) (int n))]"

text \<open>The statements that set \<open>data["text"]\<close>.\<close>

definition set_text ::
  "'f runtime \<Rightarrow> 'f config \<Rightarrow> 'f pyval \<Rightarrow> data \<Rightarrow> ('f pyexc \<times> data) + data" where
  "set_text rt cfg current d =
     attempt (get_temperature rt cfg current) d (\<lambda>t.
     attempt (if show_icon cfg then
                ebind (py_getitem current (u ''weathercode'')) (\<lambda>c.
                ebind (get_weather_icon rt c) (\<lambda>icon.
                ebind (dict_read (dict_set d (u ''text'') t) (u ''text'')) (\<lambda>old.
                Inr (dict_set (dict_set d (u ''text'') t) (u ''text'') (icon @ u '' '' @ old)))))
              else Inr (dict_set d (u ''text'') t))
       (dict_set d (u ''text'') t) (\<lambda>d2.
     attempt (if show_location cfg then dict_append d2 (u ''text'') (Inr (u '' | Paris, FR''))
              else Inr d2) d2 Inr))"

text \<open>The statements that set \<open>data["tooltip"]\<close>, up to the humidity line.\<close>

definition set_tooltip ::
  "'f runtime \<Rightarrow> 'f config \<Rightarrow> 'f pyval \<Rightarrow> data \<Rightarrow> ('f pyexc \<times> data) + data" where
  "set_tooltip rt cfg current d =
     attempt (ebind (py_getitem current (u ''weathercode'')) (\<lambda>c.
              ebind (get_description rt c) (\<lambda>desc.
              ebind (get_temperature rt cfg current) (\<lambda>t.
              Inr (dict_set d (u ''tooltip'') (u ''<b>'' @ desc @ u '' '' @ t @ u ''</b>'' @ [10]))))))
       d (\<lambda>d1.
     attempt (dict_append d1 (u ''tooltip'')
                (ebind (get_feels_like rt cfg current) (\<lambda>s.
                 Inr (u ''Feels like: '' @ s @ [10])))) d1 (\<lambda>d2.
     attempt (dict_append d2 (u ''tooltip'')
                (ebind (get_wind_speed rt cfg current) (\<lambda>s.
                 Inr (u ''Wind: '' @ s @ [10])))) d2 (\<lambda>d3.
     attempt (dict_append d3 (u ''tooltip'')
                (ebind (py_getitem current (u ''relative_humidity_2m'')) (\<lambda>h.
                 Inr (u ''Humidity: '' @ py_str rt h @ u ''%'' @ [10])))) d3 Inr)))"

text \<open>The forecast loop.\<close>

definition add_forecast ::
  "'f runtime \<Rightarrow> 'f config \<Rightarrow> 'f pyval \<Rightarrow> data \<Rightarrow> ('f pyexc \<times> data) + data" where
  "add_forecast rt cfg daily d =
     attempt (ebind (py_getitem daily (u ''time'')) py_len) d (\<lambda>n.
     forecast_loop rt cfg daily (forecast_range cfg n) d)"

text \<open>The second \<open>try\<close> block of the main script.\<close>

definition process ::
  "'f runtime \<Rightarrow> 'f config \<Rightarrow> 'f pyval \<Rightarrow> data \<Rightarrow> ('f pyexc \<times> data) + data" where
  "process rt cfg weather d =
     attempt (py_getitem weather (u ''current'')) d (\<lambda>current.
     attempt (py_getitem weather (u ''daily'')) d (\<lambda>daily.
     ebind (set_text rt cfg current d) (\<lambda>d1.
     ebind (set_tooltip rt cfg current d1) (\<lambda>d2.
     add_forecast rt cfg daily d2))))"

section \<open>Main script: output\<close>

text \<open>
  What a run leaves: the dicts written to standard output through
  \<open>print(json.dumps(data))\<close>, the lines written to standard error, the exit code.
\<close>

record outcome =
  stdout :: "data list"
  stderr :: "ustr list"
  exit_code :: int

text \<open>
  From the request on. \<open>fetched\<close> is what the first \<open>try\<close> block gives: \<open>Inl msg\<close> when
  \<open>requests.get\<close>, \<open>raise_for_status\<close> or \<open>response.json\<close> raises an exception \<open>e\<close> with
  \<open>str(e) = msg\<close>, \<open>Inr weather\<close> otherwise.
\<close>

definition report :: "'f runtime \<Rightarrow> 'f config \<Rightarrow> ustr + 'f pyval \<Rightarrow> outcome" where
  "report rt cfg fetched =
     (case fetched of
        Inl msg \<Rightarrow>
          \<lparr> stdout =
              [dict_set (dict_set [] (u ''text'') ([0x2753] @ u '' Weather Error''))
                 (u ''tooltip'') (u ''Failed to get weather data: '' @ msg)],
            stderr = debug_lines cfg,
            exit_code = 1 \<rparr>
      | Inr weather \<Rightarrow>
          (case process rt cfg weather [] of
             Inl (e, d) \<Rightarrow>
               \<lparr> stdout =
                   [dict_set (dict_set d (u ''text'') ([0x2753] @ u '' Processing Error''))
                      (u ''tooltip'') (u ''Failed to process weather data: '' @ exc_str rt e)],
                 stderr = debug_lines cfg @ [u ''ERROR: '' @ format_exc rt e],
                 exit_code = 0 \<rparr>
           | Inr d \<Rightarrow> \<lparr> stdout = [d], stderr = debug_lines cfg, exit_code = 0 \<rparr>))"

text \<open>An exception nothing catches: the traceback on standard error, exit code 1.\<close>

definition uncaught :: "'f runtime \<Rightarrow> 'f pyexc \<Rightarrow> outcome" where
  "uncaught rt e = \<lparr> stdout = [], stderr = [format_exc rt e], exit_code = 1 \<rparr>"

text \<open>
  \<open>os.path.join(os.environ.get("HOME"), ...)\<close>: \<open>os.path.join\<close> raises \<open>TypeError\<close> when
  \<open>HOME\<close> is not set.
\<close>

definition env_path :: "'f runtime \<Rightarrow> environ \<Rightarrow> ustr list \<Rightarrow> 'f pyexc + ustr" where
  "env_path rt env parts =
     (case env (u ''HOME'') of
        None \<Rightarrow> Inl (PyExc TypeError ''join'' [PNone])
      | Some home \<Rightarrow> Inr (path_join home parts))"

text \<open>The script up to the request: the two environment files, then the configuration.\<close>

definition startup :: "'f runtime \<Rightarrow> (ustr \<Rightarrow> env_file) \<Rightarrow> environ \<Rightarrow> 'f pyexc + 'f config" where
  "startup rt fs env =
     ebind (env_path rt env [u ''.rlocal'', u ''state'', u ''hyde'', u ''staterc'']) (\<lambda>p1.
     case load_env_file rt fs p1 env of
       (Some e, env1) \<Rightarrow> Inl e
     | (None, env1) \<Rightarrow>
         ebind (env_path rt env1 [u ''.local'', u ''state'', u ''hyde'', u ''config'']) (\<lambda>p2.
         case load_env_file rt fs p2 env1 of
           (Some e, env2) \<Rightarrow> Inl e
         | (None, env2) \<Rightarrow> Inr (resolve_config rt env2)))"

text \<open>
  What the request gives. \<open>NoReply msg\<close>: \<open>requests.get\<close> raises (no connection, timeout,
  too many redirects) an exception \<open>e\<close> with \<open>str(e) = msg\<close>. \<open>Reply status err body\<close>: the
  final response has the status code \<open>status\<close>; \<open>err\<close> is the text of the \<open>HTTPError\<close> that
  \<open>raise_for_status\<close> raises for it, and \<open>body\<close> is what \<open>response.json()\<close> gives, \<open>Inl msg\<close>
  when it raises.
\<close>

datatype 'f reply = NoReply ustr | Reply nat ustr "ustr + 'f pyval"

text \<open>
  The first \<open>try\<close> block. \<open>raise_for_status\<close> raises for the status codes 400 to 599 and
  for no other.
\<close>

definition fetch :: "'f reply \<Rightarrow> ustr + 'f pyval" where
  "fetch r =
     (case r of
        NoReply msg \<Rightarrow> Inl msg
      | Reply status err body \<Rightarrow> (if 400 \<le> status \<and> status < 600 then Inl err else body))"

text \<open>
  The whole script, from the environment \<open>env\<close> it starts with, the file system \<open>fs\<close>
  and the network \<open>net\<close> (what the request to a URL gives).
\<close>

definition main :: "'f runtime \<Rightarrow> (ustr \<Rightarrow> env_file) \<Rightarrow> (ustr \<Rightarrow> 'f reply) \<Rightarrow> environ \<Rightarrow> outcome" where
  "main rt fs net env =
     (case startup rt fs env of
        Inl e \<Rightarrow> uncaught rt e
      | Inr cfg \<Rightarrow> report rt cfg (fetch (net (URL rt cfg))))"

section \<open>A runtime with exact arithmetic\<close>

text \<open>
  An instance of the runtime, to run the definitions on concrete inputs: rational
  numbers in place of doubles (nothing overflows, nothing is rounded before it is
  rendered), decimal numerals \<open>digits[.digits]\<close> with an optional minus sign as the
  strings \<open>float\<close> accepts, and no digits or lower-case mappings beyond ASCII.
\<close>

definition all_digits :: "ustr \<Rightarrow> bool" where
  "all_digits s = (s \<noteq> [] \<and> list_all is_digit s)"

definition unsigned_decimal :: "ustr \<Rightarrow> rat option" where
  "unsigned_decimal s =
     (case py_split 46 s of
        [a] \<Rightarrow> (if all_digits a then Some (of_nat (digits_value a)) else None)
      | [a, b] \<Rightarrow>
          (if all_digits a \<and> all_digits b
           then Some (of_nat (digits_value a) + of_nat (digits_value b) / 10 ^ length b)
           else None)
      | _ \<Rightarrow> None)"

definition decimal :: "ustr \<Rightarrow> rat option" where
  "decimal s =
     (case s of
        [] \<Rightarrow> None
      | c # r \<Rightarrow> (if c = 45 then map_option uminus (unsigned_decimal r) else unsigned_decimal s))"

fun frac_digits :: "nat \<Rightarrow> rat \<Rightarrow> ustr" where
  "frac_digits 0 x = []"
| "frac_digits (Suc k) x =
     (if x = 0 then []
      else (48 + nat \<lfloor>x * 10\<rfloor>) # frac_digits k (x * 10 - of_int \<lfloor>x * 10\<rfloor>))"

definition rat_repr :: "rat \<Rightarrow> ustr" where
  "rat_repr x =
     (if x < 0 then [45] else []) @ str_int \<lfloor>\<bar>x\<bar>\<rfloor> @ [46]
     @ (if \<bar>x\<bar> = of_int \<lfloor>\<bar>x\<bar>\<rfloor> then [48] else frac_digits 17 (\<bar>x\<bar> - of_int \<lfloor>\<bar>x\<bar>\<rfloor>))"

text \<open>One decimal place, ties to the even digit.\<close>

definition rat_format_1f :: "rat \<Rightarrow> ustr" where
  "rat_format_1f x =
     (let q = \<bar>x\<bar> * 10;
          f = \<lfloor>q\<rfloor>;
          r = (if 1 / 2 < q - of_int f \<or> (q - of_int f = 1 / 2 \<and> odd f) then f + 1 else f)
      in (if x < 0 then [45] else []) @ str_int (r div 10) @ [46] @ str_int (r mod 10))"

definition sample_exc_str :: "rat pyexc \<Rightarrow> ustr" where
  "sample_exc_str e =
     (case e of
        PyExc KeyError op [v, PStr k] \<Rightarrow> [39] @ k @ [39]
      | PyExc kind op args \<Rightarrow> u op)"

definition sample_runtime :: "rat runtime" where
  "sample_runtime =
     \<lparr> uni_isspace =
         (\<lambda>c. c \<in> set [0x85, 0xA0, 0x1680, 0x2028, 0x2029, 0x202F, 0x205F, 0x3000]
               \<or> (0x2000 \<le> c \<and> c \<le> 0x200A)),
       uni_lower = map (\<lambda>c. if 65 \<le> c \<and> c \<le> 90 then c + 32 else c),
       uni_int = (\<lambda>s. None),
       int_max_str_digits = 4300,
       float_of_str = decimal,
       float_literal = (\<lambda>s. case decimal (u s) of None \<Rightarrow> 0 | Some x \<Rightarrow> x),
       float_of_int = of_int,
       float_overflows = (\<lambda>n. False),
       int_truediv = (\<lambda>a b. of_int a / of_int b),
       truediv_overflows = (\<lambda>a b. False),
       float_add = (\<lambda>x y. x + y),
       float_mul = (\<lambda>x y. x * y),
       float_div = (\<lambda>x y. x / y),
       float_gt_int = (\<lambda>x k. of_int k < x),
       float_as_int = (\<lambda>x. if x = of_int \<lfloor>x\<rfloor> then Some \<lfloor>x\<rfloor> else None),
       float_repr = rat_repr,
       float_format_1f = rat_format_1f,
       container_repr = (\<lambda>v. u ''[...]''),
       exc_str = sample_exc_str,
       format_exc = (\<lambda>e. u ''Traceback (most recent call last): '' @ sample_exc_str e) \<rparr>"

text \<open>A payload of one forecast day, and the configuration of an empty environment.\<close>

definition sample_current :: "rat pyval" where
  "sample_current =
     PDict [(u ''temperature_2m'', PInt 20),
            (u ''weathercode'', PInt 0),
            (u ''wind_speed_10m'', PInt 10),
            (u ''relative_humidity_2m'', PInt 50)]"

definition sample_daily :: "rat pyval" where
  "sample_daily =
     PDict [(u ''time'', PList [PStr (u ''2024-05-01'')]),
            (u ''weathercode'', PList [PInt 3]),
            (u ''temperature_2m_max'', PList [PInt 25]),
            (u ''temperature_2m_min'', PList [PInt 10]),
            (u ''sunrise'', PList [PStr (u ''2024-05-01T06:31'')]),
            (u ''sunset'', PList [PStr (u ''2024-05-01T21:02'')])]"

definition sample_weather :: "rat pyval" where
  "sample_weather = PDict [(u ''current'', sample_current), (u ''daily'', sample_daily)]"

definition sample_config :: "rat config" where
  "sample_config = resolve_config sample_runtime Map.empty"

section \<open>The conversions in the words of the specification\<close>

text \<open>
  \<open>f = c * 9/5 + 32\<close> for a number \<open>c\<close>, in the arithmetic of the runtime: on a double
  three double operations; on an int the exact product \<open>c * 9\<close>, then the true
  division of two ints, then a double addition. \<open>None\<close> where \<open>c\<close> is not a number or
  the division overflows. A bool counts as the int 0 or 1.
\<close>

definition fahrenheit :: "'f runtime \<Rightarrow> 'f pyval \<Rightarrow> 'f option" where
  "fahrenheit rt c =
     (case c of
        PFloat x \<Rightarrow>
          Some (float_add rt (float_div rt (float_mul rt x (float_of_int rt 9)) (float_of_int rt 5))
                  (float_of_int rt 32))
      | PInt n \<Rightarrow>
          (if truediv_overflows rt (n * 9) 5 then None
           else Some (float_add rt (int_truediv rt (n * 9) 5) (float_of_int rt 32)))
      | PBool b \<Rightarrow>
          (if truediv_overflows rt (int_of_bool b * 9) 5 then None
           else Some (float_add rt (int_truediv rt (int_of_bool b * 9) 5) (float_of_int rt 32)))
      | _ \<Rightarrow> None)"

text \<open>A JSON number, what \<open>humidity > 70\<close> says of one, and a number plus 2 degrees.\<close>

definition is_number :: "'f pyval \<Rightarrow> bool" where
  "is_number v = (case v of PInt n \<Rightarrow> True | PFloat x \<Rightarrow> True | _ \<Rightarrow> False)"

definition above_70 :: "'f runtime \<Rightarrow> 'f pyval \<Rightarrow> bool" where
  "above_70 rt h = (case h of PInt k \<Rightarrow> 70 < k | PFloat y \<Rightarrow> float_gt_int rt y 70 | _ \<Rightarrow> False)"

definition plus_2 :: "'f runtime \<Rightarrow> 'f pyval \<Rightarrow> 'f pyval" where
  "plus_2 rt t =
     (case t of
        PInt n \<Rightarrow> PInt (n + 2)
      | PFloat x \<Rightarrow> PFloat (float_add rt x (float_of_int rt 2))
      | _ \<Rightarrow> t)"

definition sample_output :: data where
  "sample_output =
     [(u ''text'', [0x2600, 0xFE0F] @ u '' 20'' @ [0xB0] @ u ''C | Paris, FR''),
      (u ''tooltip'',
       u ''<b>Clear sky 20'' @ [0xB0] @ u ''C</b>'' @ [10]
       @ u ''Feels like: 20.0'' @ [0xB0] @ u ''C'' @ [10]
       @ u ''Wind: 10 km/h'' @ [10]
       @ u ''Humidity: 50%'' @ [10]
       @ [10] @ u ''<b>Today (2024-05-01)</b>'' @ [10]
       @ [0x2601, 0xFE0F] @ u '' Overcast'' @ [10]
       @ [0x2B06, 0xFE0F] @ u '' 25'' @ [0xB0] @ u ''C '' @ [0x2B07, 0xFE0F] @ u '' 10''
       @ [0xB0] @ u ''C'' @ [10]
       @ [0x1F305] @ u '' 06:31 '' @ [0x1F307] @ u '' 21:02'' @ [10])]"

section \<open>Environment files in the words of the specification\<close>

text \<open>
  A name \<open>KEY\<close> that a line \<open>KEY=VALUE\<close> can set: not empty, without \<open>=\<close> and the null
  character, not starting with whitespace, with \<open>#\<close> or with \<open>export \<close>. A value, quoted
  or not: without the null character and without a double quote at either end, and,
  when it is not quoted, not ending with whitespace.
\<close>

definition env_name :: "'f runtime \<Rightarrow> ustr \<Rightarrow> bool" where
  "env_name rt key \<longleftrightarrow>
     key \<noteq> [] \<and> 61 \<notin> set key \<and> 0 \<notin> set key \<and> list_all encodable key
     \<and> \<not> isspace rt (hd key) \<and> hd key \<noteq> 35 \<and> \<not> startswith key (u ''export '')"

definition env_value :: "'f runtime \<Rightarrow> bool \<Rightarrow> ustr \<Rightarrow> bool" where
  "env_value rt quoted v \<longleftrightarrow>
     0 \<notin> set v \<and> list_all encodable v
     \<and> (v \<noteq> [] \<longrightarrow> hd v \<noteq> 34 \<and> last v \<noteq> 34)
     \<and> (\<not> quoted \<and> v \<noteq> [] \<longrightarrow> \<not> isspace rt (last v))"

section \<open>Sample runs of the whole script\<close>

text \<open>
  An environment with \<open>HOME\<close> only, a file system without the two environment files,
  and four networks: a timeout, a reply 404, a reply 300 with the sample payload as its
  JSON body, and a reply 200 whose JSON body is the empty object.
\<close>

definition sample_environ :: environ where
  "sample_environ = [u ''HOME'' \<mapsto> u ''/home/u'']"

definition sample_files :: "ustr \<Rightarrow> env_file" where
  "sample_files p = NoFile"

definition net_timeout :: "ustr \<Rightarrow> rat reply" where
  "net_timeout url = NoReply (u ''timed out'')"

definition net_404 :: "ustr \<Rightarrow> rat reply" where
  "net_404 url = Reply 404 (u ''404 Client Error'') (Inr (PDict []))"

definition net_300 :: "ustr \<Rightarrow> rat reply" where
  "net_300 url = Reply 300 [] (Inr sample_weather)"

definition net_empty_object :: "ustr \<Rightarrow> rat reply" where
  "net_empty_object url = Reply 200 [] (Inr (PDict []))"

section \<open>A payload of three days\<close>

text \<open>
  The sample payload with three forecast days, the configuration of an environment that
  sets \<open>WEATHER_FORECAST_DAYS\<close> to 2, and what processing gives for the two.
\<close>

definition sample_daily_3 :: "rat pyval" where
  "sample_daily_3 =
     PDict [(u ''time'',
             PList [PStr (u ''2024-05-01''), PStr (u ''2024-05-02''), PStr (u ''2024-05-03'')]),
            (u ''weathercode'', PList [PInt 3, PInt 61, PInt 0]),
            (u ''temperature_2m_max'', PList [PInt 25, PInt 18, PInt 22]),
            (u ''temperature_2m_min'', PList [PInt 10, PInt 9, PInt 11]),
            (u ''sunrise'',
             PList [PStr (u ''2024-05-01T06:31''), PStr (u ''2024-05-02T06:29''),
                    PStr (u ''2024-05-03T06:28'')]),
            (u ''sunset'',
             PList [PStr (u ''2024-05-01T21:02''), PStr (u ''2024-05-02T21:03''),
                    PStr (u ''2024-05-03T21:05'')])]"

definition sample_weather_3 :: "rat pyval" where
  "sample_weather_3 = PDict [(u ''current'', sample_current), (u ''daily'', sample_daily_3)]"

definition sample_config_2 :: "rat config" where
  "sample_config_2 = resolve_config sample_runtime [u ''WEATHER_FORECAST_DAYS'' \<mapsto> u ''2'']"

definition sample_header :: ustr where
  "sample_header =
     u ''<b>Clear sky 20'' @ [0xB0] @ u ''C</b>'' @ [10]
     @ u ''Feels like: 20.0'' @ [0xB0] @ u ''C'' @ [10]
     @ u ''Wind: 10 km/h'' @ [10]
     @ u ''Humidity: 50%'' @ [10]"

definition sample_block_0 :: ustr where
  "sample_block_0 =
     [10] @ u ''<b>Today (2024-05-01)</b>'' @ [10]
     @ [0x2601, 0xFE0F] @ u '' Overcast'' @ [10]
     @ [0x2B06, 0xFE0F] @ u '' 25'' @ [0xB0] @ u ''C '' @ [0x2B07, 0xFE0F] @ u '' 10''
     @ [0xB0] @ u ''C'' @ [10]
     @ [0x1F305] @ u '' 06:31 '' @ [0x1F307] @ u '' 21:02'' @ [10]"

definition sample_block_1 :: ustr where
  "sample_block_1 =
     [10] @ u ''<b>Day 2 (2024-05-02)</b>'' @ [10]
     @ [0x1F327, 0xFE0F] @ u '' Slight rain'' @ [10]
     @ [0x2B06, 0xFE0F] @ u '' 18'' @ [0xB0] @ u ''C '' @ [0x2B07, 0xFE0F] @ u '' 9''
     @ [0xB0] @ u ''C'' @ [10]
     @ [0x1F305] @ u '' 06:29 '' @ [0x1F307] @ u '' 21:03'' @ [10]"

definition sample_output_2 :: data where
  "sample_output_2 =
     [(u ''text'', [0x2600, 0xFE0F] @ u '' 20'' @ [0xB0] @ u ''C | Paris, FR''),
      (u ''tooltip'', sample_header @ sample_block_0 @ sample_block_1)]"

section \<open>Lines of an environment file, as the code reads them\<close>

text \<open>
  The text before the first \<open>=\<close> of a line, which becomes the name: not empty, without
  \<open>=\<close> and the null character, not starting with whitespace. The text after it, up to
  the whitespace that ends the line: without the null character.
\<close>

definition env_key :: "'f runtime \<Rightarrow> ustr \<Rightarrow> bool" where
  "env_key rt key \<longleftrightarrow>
     key \<noteq> [] \<and> 61 \<notin> set key \<and> 0 \<notin> set key \<and> list_all encodable key
     \<and> \<not> isspace rt (hd key)"

definition env_raw_value :: "'f runtime \<Rightarrow> ustr \<Rightarrow> bool" where
  "env_raw_value rt v \<longleftrightarrow>
     0 \<notin> set v \<and> list_all encodable v \<and> (v \<noteq> [] \<longrightarrow> \<not> isspace rt (last v))"

text \<open>Sample files: one of lines that are all read, one with a quoted word at the end of
  a value, one with a line that raises.\<close>

definition no_environ :: environ where
  "no_environ = Map.empty"

definition sample_env_lines :: "ustr list" where
  "sample_env_lines =
     [u ''# units'' @ [10],
      [10],
      u ''export UNIT='' @ [34] @ u ''f'' @ [34] @ [10],
      u ''  DAYS=2  '' @ [10]]"

definition sample_env_files :: "ustr \<Rightarrow> env_file" where
  "sample_env_files p = File sample_env_lines"

definition quoted_word_files :: "ustr \<Rightarrow> env_file" where
  "quoted_word_files p = File [u ''MSG=say '' @ [34] @ u ''hi'' @ [34] @ [10]]"

definition raising_files :: "ustr \<Rightarrow> env_file" where
  "raising_files p = File [u ''oops'' @ [10], u ''UNIT=f'' @ [10]]"

section \<open>Properties of the lookups\<close>

lemma dict_get_int:
  "dict_get rt d (PInt n) dflt = Inr (case map_of d n of None \<Rightarrow> dflt | Some x \<Rightarrow> x)"
  by (simp add: dict_get_def int_key_def ebind_def split: option.splits)

text \<open>
  C2. For every weather code of the fixed table, \<open>get_weather_icon\<close> returns the emoji
  and \<open>get_description\<close> the text the table gives it; for every other integer they
  return the question mark and \<open>Unknown\<close>.
\<close>

theorem weather_code_lookup:
  "(\<forall>(n, icon, description) \<in> set
       [(0, [0x2600, 0xFE0F], u ''Clear sky''),
        (1, [0x1F324, 0xFE0F], u ''Mainly clear''),
        (2, [0x26C5], u ''Partly cloudy''),
        (3, [0x2601, 0xFE0F], u ''Overcast''),
        (45, [0x1F32B, 0xFE0F], u ''Fog''),
        (48, [0x1F32B, 0xFE0F], u ''Depositing rime fog''),
        (51, [0x1F327, 0xFE0F], u ''Light drizzle''),
        (53, [0x1F327, 0xFE0F], u ''Moderate drizzle''),
        (55, [0x1F327, 0xFE0F], u ''Dense drizzle''),
        (61, [0x1F327, 0xFE0F], u ''Slight rain''),
        (63, [0x1F327, 0xFE0F], u ''Moderate rain''),
        (65, [0x1F327, 0xFE0F], u ''Heavy rain''),
        (80, [0x1F326, 0xFE0F], u ''Slight rain showers''),
        (81, [0x1F326, 0xFE0F], u ''Moderate rain showers''),
        (82, [0x1F326, 0xFE0F], u ''Violent rain showers''),
        (95, [0x26C8, 0xFE0F], u ''Thunderstorm''),
        (96, [0x26C8, 0xFE0F], u ''Thunderstorm with slight hail''),
        (99, [0x26C8, 0xFE0F], u ''Thunderstorm with heavy hail'')].
      get_weather_icon rt (PInt n) = Inr icon \<and> get_description rt (PInt n) = Inr description)
   \<and> (\<forall>n. n \<notin> set [0, 1, 2, 3, 45, 48, 51, 53, 55, 61, 63, 65, 80, 81, 82, 95, 96, 99] \<longrightarrow>
          get_weather_icon rt (PInt n) = Inr [0x2753]
          \<and> get_description rt (PInt n) = Inr (u ''Unknown''))"
  by (simp add: get_weather_icon_def get_description_def dict_get_int
        WMO_WEATHER_CODES_def descriptions_def)

theorem weather_code_lookup_witness:
  "get_weather_icon sample_runtime (PInt 45) = Inr [0x1F32B, 0xFE0F]
   \<and> get_description sample_runtime (PInt 45) = Inr (u ''Fog'')
   \<and> get_weather_icon sample_runtime (PInt 4) = Inr [0x2753]
   \<and> get_description sample_runtime (PInt 4) = Inr (u ''Unknown'')"
  using weather_code_lookup [of sample_runtime, THEN conjunct1]
    weather_code_lookup [of sample_runtime, THEN conjunct2, rule_format, of 4]
  by simp

section \<open>Properties of the configuration\<close>

lemmas int_eval = py_int_def ascii_int_def ascii_space_def valid_digits_def is_digit_def
  digits_value_def too_many_digits_def u_def Let_def

lemma py_int_5: "py_int rt (u ''5'') = Some 5"
  by (auto simp add: int_eval)

text \<open>
  C7. When \<open>int\<close> refuses the value of \<open>WEATHER_FORECAST_DAYS\<close>, or gives an integer
  outside 1..3, the resolved day count is 3; when it gives 1, 2 or 3, the count is that
  integer. The value \<open>5\<close> gives 3 on every runtime.
\<close>

theorem forecast_days_resolution:
  "(py_int rt (getenv env (u ''WEATHER_FORECAST_DAYS'') (u ''3'')) = None \<longrightarrow>
      resolve_forecast_days rt env = 3)
   \<and> (\<forall>n. py_int rt (getenv env (u ''WEATHER_FORECAST_DAYS'') (u ''3'')) = Some n \<longrightarrow>
          (n < 1 \<or> 3 < n) \<longrightarrow> resolve_forecast_days rt env = 3)
   \<and> (\<forall>n. py_int rt (getenv env (u ''WEATHER_FORECAST_DAYS'') (u ''3'')) = Some n \<longrightarrow>
          1 \<le> n \<longrightarrow> n \<le> 3 \<longrightarrow> resolve_forecast_days rt env = n)
   \<and> (env (u ''WEATHER_FORECAST_DAYS'') = Some (u ''5'') \<longrightarrow> resolve_forecast_days rt env = 3)
   \<and> FORECAST_DAYS (resolve_config rt env) = resolve_forecast_days rt env"
  by (simp add: resolve_forecast_days_def parse_forecast_days_def check_forecast_days_def
        resolve_config_def getenv_def py_int_5)


theorem forecast_days_resolution_witness:
  "resolve_forecast_days sample_runtime [u ''WEATHER_FORECAST_DAYS'' \<mapsto> u ''abc''] = 3
   \<and> resolve_forecast_days sample_runtime [u ''WEATHER_FORECAST_DAYS'' \<mapsto> u ''5''] = 3
   \<and> resolve_forecast_days sample_runtime [u ''WEATHER_FORECAST_DAYS'' \<mapsto> u ''2''] = 2"
proof -
  have a: "py_int sample_runtime (getenv [u ''WEATHER_FORECAST_DAYS'' \<mapsto> u ''abc'']
             (u ''WEATHER_FORECAST_DAYS'') (u ''3'')) = None"
    by (simp add: getenv_def int_eval sample_runtime_def)
  have b: "py_int sample_runtime (getenv [u ''WEATHER_FORECAST_DAYS'' \<mapsto> u ''5'']
             (u ''WEATHER_FORECAST_DAYS'') (u ''3'')) = Some 5"
    by (simp add: getenv_def int_eval sample_runtime_def)
  have c: "py_int sample_runtime (getenv [u ''WEATHER_FORECAST_DAYS'' \<mapsto> u ''2'']
             (u ''WEATHER_FORECAST_DAYS'') (u ''3'')) = Some 2"
    by (simp add: getenv_def int_eval sample_runtime_def)
  show ?thesis
    using forecast_days_resolution [of sample_runtime "[u ''WEATHER_FORECAST_DAYS'' \<mapsto> u ''abc'']"]
      forecast_days_resolution [of sample_runtime "[u ''WEATHER_FORECAST_DAYS'' \<mapsto> u ''5'']"]
      forecast_days_resolution [of sample_runtime "[u ''WEATHER_FORECAST_DAYS'' \<mapsto> u ''2'']"]
      a b c
    by simp
qed

lemma unpack2_Some:
  "unpack2 f xs = Some (x, y) \<longleftrightarrow> (\<exists>a b. xs = [a, b] \<and> f a = Some x \<and> f b = Some y)"
  by (auto simp add: unpack2_def split: list.splits option.splits)

text \<open>
  C8. When \<open>WEATHER_LOCATION\<close> splits on the comma into exactly two strings that \<open>float\<close>
  accepts, the coordinates are the two parsed numbers; in every other case they are
  the default pair \<open>(48.8566, 2.3522)\<close>.
\<close>

theorem location_resolution:
  "(\<forall>a b x y. py_split 44 s = [a, b] \<longrightarrow> float_of_str rt a = Some x \<longrightarrow>
       float_of_str rt b = Some y \<longrightarrow> parse_location rt s = (x, y))
   \<and> ((\<nexists>a b x y. py_split 44 s = [a, b] \<and> float_of_str rt a = Some x
          \<and> float_of_str rt b = Some y) \<longrightarrow>
        parse_location rt s = (float_literal rt ''48.8566'', float_literal rt ''2.3522''))
   \<and> (lat (resolve_config rt env), lon (resolve_config rt env)) =
        parse_location rt (getenv env (u ''WEATHER_LOCATION'') (u ''48.8566,2.3522''))"
proof (intro conjI allI impI)
  fix a b x y
  assume "py_split 44 s = [a, b]" "float_of_str rt a = Some x" "float_of_str rt b = Some y"
  then show "parse_location rt s = (x, y)"
    by (simp add: parse_location_def unpack2_def)
next
  assume none: "\<nexists>a b x y. py_split 44 s = [a, b] \<and> float_of_str rt a = Some x
          \<and> float_of_str rt b = Some y"
  have "unpack2 (float_of_str rt) (py_split 44 s) = None"
  proof (cases "unpack2 (float_of_str rt) (py_split 44 s)")
    case None then show ?thesis .
  next
    case (Some p)
    then obtain x y where "unpack2 (float_of_str rt) (py_split 44 s) = Some (x, y)"
      by (cases p) simp
    with none show ?thesis unfolding unpack2_Some by blast
  qed
  then show "parse_location rt s = (float_literal rt ''48.8566'', float_literal rt ''2.3522'')"
    by (simp add: parse_location_def default_location_def)
next
  show "(lat (resolve_config rt env), lon (resolve_config rt env)) =
        parse_location rt (getenv env (u ''WEATHER_LOCATION'') (u ''48.8566,2.3522''))"
    by (simp add: resolve_config_def)
qed

lemmas float_eval = decimal_def unsigned_decimal_def all_digits_def is_digit_def digits_value_def u_def

lemma split_not_valid: "py_split 44 (u ''not,valid'') = [u ''not'', u ''valid'']"
  by (simp add: u_def)

lemma split_12_5: "py_split 44 (u ''12.5,7'') = [u ''12.5'', u ''7'']"
  by (simp add: u_def)

lemma sample_float_12_5: "float_of_str sample_runtime (u ''12.5'') = Some (25/2)"
  by (simp add: sample_runtime_def float_eval)
lemma sample_float_7: "float_of_str sample_runtime (u ''7'') = Some 7"
  by (simp add: sample_runtime_def float_eval)
lemma sample_float_not: "float_of_str sample_runtime (u ''not'') = None"
  by (simp add: sample_runtime_def float_eval)


theorem location_resolution_witness:
  "parse_location sample_runtime (u ''12.5,7'') = (25 / 2, 7)
   \<and> parse_location sample_runtime (u ''not,valid'') =
       (float_literal sample_runtime ''48.8566'', float_literal sample_runtime ''2.3522'')"
proof -
  have "\<nexists>a b x y. py_split 44 (u ''not,valid'') = [a, b] \<and> float_of_str sample_runtime a = Some x
          \<and> float_of_str sample_runtime b = Some y"
    by (simp add: split_not_valid sample_float_not)
  then show ?thesis
    using location_resolution [of "u ''12.5,7''" sample_runtime, THEN conjunct1, rule_format,
        OF split_12_5 sample_float_12_5 sample_float_7]
      location_resolution [of "u ''not,valid''" sample_runtime, THEN conjunct2, THEN conjunct1]
    by simp
qed

section \<open>Properties of the temperature functions\<close>

lemma ebind_Inr_iff: "ebind m f = Inr r \<longleftrightarrow> (\<exists>v. m = Inr v \<and> f v = Inr r)"
  by (cases m) (simp_all add: ebind_def)

lemma ebind_Inr [simp]: "ebind (Inr v) f = f v"
  by (simp add: ebind_def)

lemma ebind_Inl [simp]: "ebind (Inl e) f = Inl e"
  by (simp add: ebind_def)

lemma times_9_by_5_plus_32_iff:
  "times_9_by_5_plus_32 rt c = Inr r \<longleftrightarrow> (\<exists>f. fahrenheit rt c = Some f \<and> r = PFloat f)"
  by (cases c)
    (auto simp add: times_9_by_5_plus_32_def fahrenheit_def py_mul_int_def py_truediv_int_def
       py_add_int_def)

text \<open>
  C3. With the unit \<open>f\<close>, each rendered temperature (current, feels-like, daily maximum
  and minimum) is the Celsius value \<open>c\<close> turned into \<open>c * 9/5 + 32\<close> and formatted with one
  decimal place, and nothing else is rendered; with the unit \<open>c\<close>, the current
  temperature is the value of the payload as it is.
\<close>

theorem temperature_rendering:
  "(temp_unit cfg = u ''f'' \<longrightarrow>
      (\<forall>s. get_temperature rt cfg cur = Inr s \<longleftrightarrow>
         (\<exists>c f. py_getitem cur (u ''temperature_2m'') = Inr c \<and> fahrenheit rt c = Some f
            \<and> s = float_format_1f rt f @ [0xB0] @ u ''F''))
    \<and> (\<forall>s. get_feels_like rt cfg cur = Inr s \<longleftrightarrow>
         (\<exists>c f. feels_like_value rt cur = Inr c \<and> fahrenheit rt c = Some f
            \<and> s = float_format_1f rt f @ [0xB0] @ u ''F''))
    \<and> (\<forall>key i s. daily_temp rt cfg daily key i = Inr s \<longleftrightarrow>
         (\<exists>xs c f. py_getitem daily key = Inr xs \<and> py_index xs i = Inr c
            \<and> fahrenheit rt c = Some f \<and> s = float_format_1f rt f @ [0xB0] @ u ''F'')))
   \<and> (temp_unit cfg = u ''c'' \<longrightarrow>
      (\<forall>s. get_temperature rt cfg cur = Inr s \<longleftrightarrow>
         (\<exists>c. py_getitem cur (u ''temperature_2m'') = Inr c \<and> s = py_str rt c @ [0xB0] @ u ''C'')))"
proof -
  have fc: "u ''f'' \<noteq> u ''c''"
    by (simp add: u_def)
  show ?thesis
    by (auto simp add: fc get_temperature_def get_feels_like_def daily_temp_def ebind_Inr_iff
          times_9_by_5_plus_32_iff py_format_1f_def)
qed

lemmas render_eval = str_int_def str_nat.simps rat_format_1f_def rat_repr_def u_def Let_def

lemma sample_temp_unit: "temp_unit sample_config = u ''c''"
  by (simp add: sample_config_def resolve_config_def one_of_def lower_def getenv_def u_def)

lemma sample_temperature: "py_getitem sample_current (u ''temperature_2m'') = Inr (PInt 20)"
  by (simp add: py_getitem_def sample_current_def u_def)

lemma sample_humidity: "py_getitem sample_current (u ''relative_humidity_2m'') = Inr (PInt 50)"
  by (simp add: py_getitem_def sample_current_def u_def)

theorem temperature_rendering_witness:
  "get_temperature sample_runtime (sample_config\<lparr>temp_unit := u ''f''\<rparr>) sample_current
     = Inr (u ''68.0'' @ [0xB0] @ u ''F'')
   \<and> get_temperature sample_runtime sample_config sample_current = Inr (u ''20'' @ [0xB0] @ u ''C'')"
proof -
  have f: "fahrenheit sample_runtime (PInt 20) = Some 68"
    by (simp add: fahrenheit_def sample_runtime_def)
  have r: "float_format_1f sample_runtime 68 = u ''68.0''"
    by (simp add: sample_runtime_def render_eval)
  have s: "py_str sample_runtime (PInt 20) = u ''20''"
    by (simp add: py_str_def render_eval)
  have uf: "temp_unit (sample_config\<lparr>temp_unit := u ''f''\<rparr>) = u ''f''"
    by simp
  have a: "get_temperature sample_runtime (sample_config\<lparr>temp_unit := u ''f''\<rparr>) sample_current
     = Inr (u ''68.0'' @ [0xB0] @ u ''F'')"
    using temperature_rendering [of "sample_config\<lparr>temp_unit := u ''f''\<rparr>" sample_runtime
        sample_current, THEN conjunct1, rule_format, OF uf, THEN conjunct1, rule_format,
        of "u ''68.0'' @ [0xB0] @ u ''F''"]
      sample_temperature f r
    by simp
  have b: "get_temperature sample_runtime sample_config sample_current = Inr (u ''20'' @ [0xB0] @ u ''C'')"
    using temperature_rendering [of sample_config sample_runtime sample_current,
        THEN conjunct2, rule_format, OF sample_temp_unit, of "u ''20'' @ [0xB0] @ u ''C''"]
      sample_temperature s
    by simp
  from a b show ?thesis ..
qed

lemma feels_like_value_numbers:
  assumes "py_getitem cur (u ''temperature_2m'') = Inr t"
    and "py_getitem cur (u ''relative_humidity_2m'') = Inr h"
    and "is_number t" and "is_number h"
  shows "feels_like_value rt cur = Inr (if above_70 rt h then plus_2 rt t else t)"
  using assms
  by (cases t; cases h)
    (simp_all add: feels_like_value_def is_number_def above_70_def plus_2_def py_gt_int_def
       py_add_int_def)

text \<open>
  C4. For a payload whose temperature and humidity are numbers, the feels-like
  temperature is the raw temperature plus 2 when the humidity is above 70 and the raw
  temperature otherwise; this value is what is formatted in Celsius, and what the
  conversion to Fahrenheit starts from.
\<close>

theorem feels_like_adjustment:
  assumes "py_getitem cur (u ''temperature_2m'') = Inr t"
    and "py_getitem cur (u ''relative_humidity_2m'') = Inr h"
    and "is_number t" and "is_number h"
  shows "feels_like_value rt cur = Inr (if above_70 rt h then plus_2 rt t else t)
    \<and> (temp_unit cfg = u ''c'' \<longrightarrow>
         (\<forall>s. get_feels_like rt cfg cur = Inr s \<longleftrightarrow>
            (\<exists>r. py_format_1f rt (if above_70 rt h then plus_2 rt t else t) = Inr r
               \<and> s = r @ [0xB0] @ u ''C'')))
    \<and> (temp_unit cfg \<noteq> u ''c'' \<longrightarrow>
         (\<forall>s. get_feels_like rt cfg cur = Inr s \<longleftrightarrow>
            (\<exists>f. fahrenheit rt (if above_70 rt h then plus_2 rt t else t) = Some f
               \<and> s = float_format_1f rt f @ [0xB0] @ u ''F'')))"
  using feels_like_value_numbers [OF assms, of rt]
  by (auto simp add: get_feels_like_def ebind_Inr_iff times_9_by_5_plus_32_iff py_format_1f_def)

theorem feels_like_adjustment_witness:
  "feels_like_value sample_runtime sample_current = Inr (PInt 20)
   \<and> feels_like_value sample_runtime
        (PDict [(u ''temperature_2m'', PInt 20), (u ''relative_humidity_2m'', PInt 71)])
       = Inr (PInt 22)"
proof -
  have t: "py_getitem (PDict [(u ''temperature_2m'', PInt 20), (u ''relative_humidity_2m'', PInt 71)])
             (u ''temperature_2m'') = Inr (PInt 20 :: rat pyval)"
    by (simp add: py_getitem_def u_def)
  have h: "py_getitem (PDict [(u ''temperature_2m'', PInt 20), (u ''relative_humidity_2m'', PInt 71)])
             (u ''relative_humidity_2m'') = Inr (PInt 71 :: rat pyval)"
    by (simp add: py_getitem_def u_def)
  have n: "is_number (PInt k :: rat pyval)" for k
    by (simp add: is_number_def)
  show ?thesis
    using feels_like_adjustment [OF sample_temperature sample_humidity n n, of sample_runtime
        sample_config, THEN conjunct1]
      feels_like_adjustment [OF t h n n, of sample_runtime sample_config, THEN conjunct1]
    by (simp add: above_70_def plus_2_def)
qed

section \<open>Properties of the processing stage\<close>

lemma attempt_Inr_iff: "attempt m d f = Inr r \<longleftrightarrow> (\<exists>v. m = Inr v \<and> f v = Inr r)"
  by (cases m) (simp_all add: attempt_def)

lemma attempt_Inr [simp]: "attempt (Inr v) d f = f v"
  by (simp add: attempt_def)

lemma attempt_Inl [simp]: "attempt (Inl e) d f = Inl (e, d)"
  by (simp add: attempt_def)

lemma map_of_dict_set: "map_of (dict_set d k v) = (map_of d)(k \<mapsto> v)"
  by (induction d k v rule: dict_set.induct) auto

lemma dict_read_dict_set [simp]: "dict_read (dict_set d k v) k = Inr v"
  by (simp add: dict_read_def map_of_dict_set)

lemma dict_set_dict_set [simp]: "dict_set (dict_set d k v) k w = dict_set d k w"
  by (induction d k v rule: dict_set.induct) auto

lemma dict_append_Inr_iff:
  "dict_append d k rhs = Inr d1 \<longleftrightarrow>
     (\<exists>old s. map_of d k = Some old \<and> rhs = Inr s \<and> d1 = dict_set d k (old @ s))"
  by (auto simp add: dict_append_def dict_read_def ebind_Inr_iff split: option.splits)

lemma text_neq_tooltip [simp]: "u ''text'' \<noteq> u ''tooltip''" "u ''tooltip'' \<noteq> u ''text''"
  by (simp_all add: u_def)

text \<open>What \<open>set_text\<close> leaves in \<open>data["text"]\<close>.\<close>

lemma set_text_Inr_iff:
  "set_text rt cfg current d = Inr d1 \<longleftrightarrow>
     (\<exists>t pre. get_temperature rt cfg current = Inr t
        \<and> (if show_icon cfg
            then \<exists>c icon. py_getitem current (u ''weathercode'') = Inr c
                   \<and> get_weather_icon rt c = Inr icon \<and> pre = icon @ u '' ''
            else pre = [])
        \<and> d1 = dict_set d (u ''text'')
                 (pre @ t @ (if show_location cfg then u '' | Paris, FR'' else [])))"
  by (cases "show_icon cfg"; cases "show_location cfg")
    (auto simp add: set_text_def attempt_Inr_iff ebind_Inr_iff dict_append_Inr_iff
       map_of_dict_set)

text \<open>The later stages write to \<open>data["tooltip"]\<close> only.\<close>

lemma set_tooltip_text:
  "set_tooltip rt cfg current d = Inr d1 \<Longrightarrow> map_of d1 (u ''text'') = map_of d (u ''text'')"
  by (auto simp add: set_tooltip_def attempt_Inr_iff ebind_Inr_iff dict_append_Inr_iff
        map_of_dict_set)

lemma forecast_day_text:
  "forecast_day rt cfg daily i d = Inr d1 \<Longrightarrow> map_of d1 (u ''text'') = map_of d (u ''text'')"
  by (auto simp add: forecast_day_def attempt_Inr_iff dict_append_Inr_iff map_of_dict_set)

lemma forecast_loop_text:
  "forecast_loop rt cfg daily is d = Inr d1 \<Longrightarrow> map_of d1 (u ''text'') = map_of d (u ''text'')"
proof (induction "is" arbitrary: d)
  case Nil
  then show ?case by simp
next
  case (Cons i rest)
  then show ?case
    by (auto split: sum.splits dest: forecast_day_text)
qed

lemma add_forecast_text:
  "add_forecast rt cfg daily d = Inr d1 \<Longrightarrow> map_of d1 (u ''text'') = map_of d (u ''text'')"
  by (auto simp add: add_forecast_def attempt_Inr_iff dest: forecast_loop_text)

lemma process_Inr_iff:
  "process rt cfg weather d = Inr r \<longleftrightarrow>
     (\<exists>current daily d1 d2. py_getitem weather (u ''current'') = Inr current
        \<and> py_getitem weather (u ''daily'') = Inr daily
        \<and> set_text rt cfg current d = Inr d1
        \<and> set_tooltip rt cfg current d1 = Inr d2
        \<and> add_forecast rt cfg daily d2 = Inr r)"
  by (auto simp add: process_def attempt_Inr_iff ebind_Inr_iff)

text \<open>The coordinates are not read after the request.\<close>

lemma forecast_lines_coordinates:
  "forecast_lines rt (cfg\<lparr>lat := a, lon := b\<rparr>) daily i = forecast_lines rt cfg daily i"
  by (simp add: forecast_lines_def daily_temp_def)

lemma forecast_day_coordinates:
  "forecast_day rt (cfg\<lparr>lat := a, lon := b\<rparr>) daily i d = forecast_day rt cfg daily i d"
  by (simp add: forecast_day_def forecast_lines_coordinates)

lemma forecast_loop_coordinates:
  "forecast_loop rt (cfg\<lparr>lat := a, lon := b\<rparr>) daily is d = forecast_loop rt cfg daily is d"
  by (induction "is" arbitrary: d) (simp_all add: forecast_day_coordinates split: sum.splits)

lemma process_coordinates:
  "process rt (cfg\<lparr>lat := a, lon := b\<rparr>) weather d = process rt cfg weather d"
  by (simp add: process_def set_text_def set_tooltip_def add_forecast_def forecast_range_def
        forecast_loop_coordinates get_temperature_def get_feels_like_def get_wind_speed_def)

text \<open>
  C6. When the payload is processed without an exception, the text field is the icon
  of the current weather code and a space (if \<open>show_icon\<close>), the current temperature as
  \<open>get_temperature\<close> renders it, and \<open> | Paris, FR\<close> (if \<open>show_location\<close>); the result is the
  same whatever the configured latitude and longitude are.
\<close>

theorem text_assembly:
  assumes "process rt cfg weather [] = Inr d"
  shows "(\<exists>current t pre. py_getitem weather (u ''current'') = Inr current
           \<and> get_temperature rt cfg current = Inr t
           \<and> (if show_icon cfg
               then \<exists>c icon. py_getitem current (u ''weathercode'') = Inr c
                      \<and> get_weather_icon rt c = Inr icon \<and> pre = icon @ u '' ''
               else pre = [])
           \<and> map_of d (u ''text'')
               = Some (pre @ t @ (if show_location cfg then u '' | Paris, FR'' else [])))
         \<and> (\<forall>a b. process rt (cfg\<lparr>lat := a, lon := b\<rparr>) weather [] = Inr d)"
proof -
  from assms obtain current daily d1 d2 where
    c: "py_getitem weather (u ''current'') = Inr current"
    and s1: "set_text rt cfg current [] = Inr d1"
    and s2: "set_tooltip rt cfg current d1 = Inr d2"
    and s3: "add_forecast rt cfg daily d2 = Inr d"
    unfolding process_Inr_iff by blast
  from s1 obtain t pre where
    t: "get_temperature rt cfg current = Inr t"
    and pre: "if show_icon cfg
            then \<exists>c icon. py_getitem current (u ''weathercode'') = Inr c
                   \<and> get_weather_icon rt c = Inr icon \<and> pre = icon @ u '' ''
            else pre = []"
    and d1: "d1 = dict_set [] (u ''text'')
                 (pre @ t @ (if show_location cfg then u '' | Paris, FR'' else []))"
    unfolding set_text_Inr_iff by blast
  have "map_of d (u ''text'') = map_of d1 (u ''text'')"
    using add_forecast_text [OF s3] set_tooltip_text [OF s2] by simp
  also have "\<dots> = Some (pre @ t @ (if show_location cfg then u '' | Paris, FR'' else []))"
    by (simp add: d1)
  finally have "map_of d (u ''text'')
      = Some (pre @ t @ (if show_location cfg then u '' | Paris, FR'' else []))" .
  with c t pre show ?thesis
    by (auto simp add: process_coordinates assms)
qed

lemma sample_config_eq:
  "sample_config =
     \<lparr> temp_unit = u ''c'', time_format = u ''12h'', windspeed_unit = u ''km/h'',
       show_icon = True, show_location = True, show_today_details = True,
       FORECAST_DAYS = 3, get_location = u ''48.8566,2.3522'',
       lat = 244283 / 5000, lon = 11761 / 5000 \<rparr>"
  by (simp add: sample_config_def resolve_config_def one_of_def lower_def getenv_def truthy_def
        resolve_forecast_days_def parse_forecast_days_def check_forecast_days_def int_eval
        parse_location_def unpack2_def sample_runtime_def float_eval)

lemma sample_get_temperature:
  "get_temperature sample_runtime sample_config sample_current = Inr (u ''20'' @ [0xB0] @ u ''C'')"
  by (simp add: get_temperature_def sample_temp_unit sample_temperature)
    (simp add: py_str_def render_eval)

lemma sample_set_text:
  "set_text sample_runtime sample_config sample_current []
     = Inr [(u ''text'', [0x2600, 0xFE0F] @ u '' 20'' @ [0xB0] @ u ''C | Paris, FR'')]"
  by (simp add: set_text_def sample_get_temperature)
    (simp add: sample_config_eq sample_current_def py_getitem_def get_weather_icon_def
       dict_get_int WMO_WEATHER_CODES_def dict_append_def dict_read_def u_def)

lemma sample_get_feels_like:
  "get_feels_like sample_runtime sample_config sample_current = Inr (u ''20.0'' @ [0xB0] @ u ''C'')"
  by (simp add: get_feels_like_def feels_like_value_def sample_temp_unit sample_temperature
        sample_humidity py_gt_int_def py_format_1f_def)
    (simp add: sample_runtime_def render_eval)

lemma sample_get_wind_speed:
  "get_wind_speed sample_runtime sample_config sample_current = Inr (u ''10 km/h'')"
  by (simp add: get_wind_speed_def sample_config_eq sample_current_def py_getitem_def
        py_str_def render_eval)

lemma sample_weathercode: "py_getitem sample_current (u ''weathercode'') = Inr (PInt 0)"
  by (simp add: py_getitem_def sample_current_def u_def)

lemma sample_set_tooltip:
  "set_tooltip sample_runtime sample_config sample_current [(u ''text'', t)]
     = Inr [(u ''text'', t),
            (u ''tooltip'',
             u ''<b>Clear sky 20'' @ [0xB0] @ u ''C</b>'' @ [10]
             @ u ''Feels like: 20.0'' @ [0xB0] @ u ''C'' @ [10]
             @ u ''Wind: 10 km/h'' @ [10]
             @ u ''Humidity: 50%'' @ [10])]"
  by (simp add: set_tooltip_def sample_get_temperature sample_get_feels_like
        sample_get_wind_speed sample_weathercode sample_humidity get_description_def
        dict_get_int descriptions_def dict_append_def dict_read_def)
    (simp add: py_str_def render_eval)

lemma sample_forecast_lines:
  "forecast_lines sample_runtime sample_config sample_daily 0
     = Inr [[10] @ u ''<b>Today (2024-05-01)</b>'' @ [10],
            [0x2601, 0xFE0F] @ u '' Overcast'' @ [10],
            [0x2B06, 0xFE0F] @ u '' 25'' @ [0xB0] @ u ''C '' @ [0x2B07, 0xFE0F] @ u '' 10''
              @ [0xB0] @ u ''C'' @ [10],
            [0x1F305] @ u '' 06:31 '' @ [0x1F307] @ u '' 21:02'' @ [10]]"
  by (simp add: forecast_lines_def daily_temp_def sample_temp_unit sample_daily_def
        py_getitem_def py_index_def get_description_def get_weather_icon_def dict_get_int
        descriptions_def WMO_WEATHER_CODES_def time_of_day_def day_label_def py_str_def
        render_eval)

lemma sample_add_forecast:
  "add_forecast sample_runtime sample_config sample_daily [(u ''text'', t), (u ''tooltip'', h)]
     = Inr [(u ''text'', t),
            (u ''tooltip'',
             h @ [10] @ u ''<b>Today (2024-05-01)</b>'' @ [10]
             @ [0x2601, 0xFE0F] @ u '' Overcast'' @ [10]
             @ [0x2B06, 0xFE0F] @ u '' 25'' @ [0xB0] @ u ''C '' @ [0x2B07, 0xFE0F] @ u '' 10''
             @ [0xB0] @ u ''C'' @ [10]
             @ [0x1F305] @ u '' 06:31 '' @ [0x1F307] @ u '' 21:02'' @ [10])]"
proof -
  have n: "ebind (py_getitem sample_daily (u ''time'')) py_len = (Inr 1 :: rat pyexc + nat)"
    by (simp add: sample_daily_def py_getitem_def py_len_def u_def)
  have r: "forecast_range sample_config (Suc 0) = [0]"
    by (simp add: forecast_range_def sample_config_eq)
  show ?thesis
    by (simp add: add_forecast_def n r forecast_day_def sample_forecast_lines dict_append_def
          dict_read_def)
qed

lemma sample_process: "process sample_runtime sample_config sample_weather [] = Inr sample_output"
proof -
  have c: "py_getitem sample_weather (u ''current'') = Inr sample_current"
    by (simp add: sample_weather_def py_getitem_def u_def)
  have d: "py_getitem sample_weather (u ''daily'') = Inr sample_daily"
    by (simp add: sample_weather_def py_getitem_def u_def)
  show ?thesis
    by (simp add: process_def c d sample_set_text sample_set_tooltip sample_add_forecast
          sample_output_def)
qed

theorem text_assembly_witness:
  "map_of sample_output (u ''text'')
     = Some ([0x2600, 0xFE0F] @ u '' 20'' @ [0xB0] @ u ''C | Paris, FR'')
   \<and> process sample_runtime (sample_config\<lparr>lat := 0, lon := 0\<rparr>) sample_weather []
       = Inr sample_output"
  using text_assembly [OF sample_process, THEN conjunct2, rule_format, of 0 0]
  by (simp add: sample_output_def)

section \<open>The states of \<open>data\<close>\<close>

lemma attempt_Inl_iff:
  "attempt m d f = Inl (e, d1) \<longleftrightarrow> (m = Inl e \<and> d1 = d) \<or> (\<exists>v. m = Inr v \<and> f v = Inl (e, d1))"
  by (cases m) (auto simp add: attempt_def)

lemma ebind_Inl_iff: "ebind m f = Inl x \<longleftrightarrow> m = Inl x \<or> (\<exists>v. m = Inr v \<and> f v = Inl x)"
  by (cases m) (auto simp add: ebind_def)

text \<open>
  The first stage starts from the empty dict and leaves the one key \<open>text\<close>, the later
  stages write to \<open>tooltip\<close> only; an exception finds \<open>data\<close> somewhere on the way.
\<close>

lemma set_text_nil:
  "set_text rt cfg current [] = Inr d1 \<Longrightarrow> \<exists>t. d1 = [(u ''text'', t)]"
  by (auto simp add: set_text_Inr_iff)

lemma set_text_nil_error:
  "set_text rt cfg current [] = Inl (e, d1) \<Longrightarrow> d1 = [] \<or> (\<exists>t. d1 = [(u ''text'', t)])"
  by (auto simp add: set_text_def attempt_Inl_iff ebind_Inr_iff split: if_splits)

lemma set_tooltip_writes:
  "set_tooltip rt cfg current d = Inr d1 \<Longrightarrow> \<exists>x. d1 = dict_set d (u ''tooltip'') x"
  by (auto simp add: set_tooltip_def attempt_Inr_iff ebind_Inr_iff dict_append_Inr_iff)

lemma set_tooltip_error_writes:
  "set_tooltip rt cfg current d = Inl (e, d1) \<Longrightarrow> d1 = d \<or> (\<exists>x. d1 = dict_set d (u ''tooltip'') x)"
  by (auto simp add: set_tooltip_def attempt_Inl_iff ebind_Inr_iff dict_append_Inr_iff)

lemma forecast_day_writes:
  "forecast_day rt cfg daily i d = Inr d1 \<Longrightarrow> \<exists>x. d1 = dict_set d (u ''tooltip'') x"
  by (auto simp add: forecast_day_def attempt_Inr_iff dict_append_Inr_iff)

lemma forecast_day_error_writes:
  "forecast_day rt cfg daily i d = Inl (e, d1) \<Longrightarrow> d1 = d \<or> (\<exists>x. d1 = dict_set d (u ''tooltip'') x)"
  by (auto simp add: forecast_day_def attempt_Inl_iff dict_append_Inr_iff)

lemma forecast_loop_error_writes:
  "forecast_loop rt cfg daily is d = Inl (e, d1) \<Longrightarrow> d1 = d \<or> (\<exists>x. d1 = dict_set d (u ''tooltip'') x)"
proof (induction "is" arbitrary: d)
  case Nil
  then show ?case by simp
next
  case (Cons i rest)
  show ?case
  proof (cases "forecast_day rt cfg daily i d")
    case (Inl x)
    with Cons.prems show ?thesis
      by (auto dest: forecast_day_error_writes)
  next
    case (Inr d2)
    with Cons.prems have "forecast_loop rt cfg daily rest d2 = Inl (e, d1)"
      by simp
    then have "d1 = d2 \<or> (\<exists>x. d1 = dict_set d2 (u ''tooltip'') x)"
      by (rule Cons.IH)
    moreover from Inr obtain y where "d2 = dict_set d (u ''tooltip'') y"
      by (auto dest: forecast_day_writes)
    ultimately show ?thesis
      by auto
  qed
qed

lemma add_forecast_error_writes:
  "add_forecast rt cfg daily d = Inl (e, d1) \<Longrightarrow> d1 = d \<or> (\<exists>x. d1 = dict_set d (u ''tooltip'') x)"
  by (auto simp add: add_forecast_def attempt_Inl_iff dest: forecast_loop_error_writes)

lemma process_error_data:
  assumes "process rt cfg weather [] = Inl (e, d)"
  shows "d = [] \<or> (\<exists>t. d = [(u ''text'', t)]) \<or> (\<exists>t x. d = [(u ''text'', t), (u ''tooltip'', x)])"
proof -
  from assms consider
      (at_lookup) "d = []"
    | (at_text) current where "set_text rt cfg current [] = Inl (e, d)"
    | (at_tooltip) current d1 where "set_text rt cfg current [] = Inr d1"
        "set_tooltip rt cfg current d1 = Inl (e, d)"
    | (at_forecast) current daily d1 d2 where "set_text rt cfg current [] = Inr d1"
        "set_tooltip rt cfg current d1 = Inr d2" "add_forecast rt cfg daily d2 = Inl (e, d)"
    unfolding process_def attempt_Inl_iff ebind_Inl_iff by blast
  then show ?thesis
  proof cases
    case at_lookup
    then show ?thesis by simp
  next
    case at_text
    then show ?thesis by (auto dest: set_text_nil_error)
  next
    case at_tooltip
    from at_tooltip(1) obtain t where "d1 = [(u ''text'', t)]"
      by (auto dest: set_text_nil)
    with set_tooltip_error_writes [OF at_tooltip(2)] show ?thesis
      by auto
  next
    case at_forecast
    from at_forecast(1) obtain t where "d1 = [(u ''text'', t)]"
      by (auto dest: set_text_nil)
    with set_tooltip_writes [OF at_forecast(2)] obtain x where "d2 = [(u ''text'', t), (u ''tooltip'', x)]"
      by auto
    with add_forecast_error_writes [OF at_forecast(3)] show ?thesis
      by auto
  qed
qed

lemma error_record:
  assumes "d = [] \<or> (\<exists>t. d = [(u ''text'', t)]) \<or> (\<exists>t x. d = [(u ''text'', t), (u ''tooltip'', x)])"
  shows "dict_set (dict_set d (u ''text'') a) (u ''tooltip'') b
           = [(u ''text'', a), (u ''tooltip'', b)]"
  using assms by auto

section \<open>Properties of the environment files\<close>

lemma strip_where_core:
  assumes "xs \<noteq> []" and "\<not> P (hd xs)" and "\<not> P (last xs)" and "\<forall>c \<in> set ws. P c"
  shows "strip_where P (xs @ ws) = xs"
proof -
  from assms(1) obtain a xs1 where xs: "xs = a # xs1"
    by (cases xs) auto
  with assms(2) have front: "dropWhile P (xs @ ws) = xs @ ws"
    by simp
  from assms(1) obtain b ys where r: "rev xs = b # ys"
    by (cases "rev xs") auto
  with assms(1) have "b = last xs"
    by (metis hd_rev list.sel(1))
  with assms(3) have "dropWhile P (b # ys) = b # ys"
    by simp
  then have "dropWhile P (rev xs) = rev xs"
    unfolding r .
  moreover have "dropWhile P (rev ws @ rev xs) = dropWhile P (rev xs)"
    by (rule dropWhile_append2) (use assms(4) in auto)
  ultimately show ?thesis
    by (simp add: strip_where_def front)
qed

lemma strip_where_all:
  assumes "\<forall>c \<in> set ws. P c"
  shows "strip_where P ws = []"
proof -
  from assms have e: "dropWhile P ws = []"
    by (induction ws) auto
  show ?thesis
    unfolding strip_where_def e by simp
qed

lemma split_once_at:
  assumes "sep \<notin> set key"
  shows "split_once sep (key @ sep # rest) = [key, rest]"
proof -
  from assms have ne: "\<And>x. x \<in> set key \<Longrightarrow> x \<noteq> sep"
    by auto
  then have "takeWhile (\<lambda>c. c \<noteq> sep) (key @ sep # rest) = key"
    and "dropWhile (\<lambda>c. c \<noteq> sep) (key @ sep # rest) = sep # rest"
    by simp_all
  then show ?thesis
    by (simp add: split_once_def)
qed

lemma split_once_none:
  assumes "sep \<notin> set s"
  shows "split_once sep s = [s]"
  using assms by (simp add: split_once_def)

lemma startswith_append_sep:
  assumes "\<not> startswith key p" and "sep \<notin> set p"
  shows "\<not> startswith (key @ sep # rest) p"
proof
  assume s: "startswith (key @ sep # rest) p"
  show False
  proof (cases "length p \<le> length key")
    case True
    with s have "startswith key p"
      by (simp add: startswith_def)
    with assms(1) show False ..
  next
    case False
    with s have "key @ take (length p - length key) (sep # rest) = p"
      by (simp add: startswith_def)
    moreover from False have "take (length p - length key) (sep # rest)
        = sep # take (length p - length key - 1) rest"
      by (cases "length p - length key") auto
    ultimately have "sep \<in> set p"
      by (metis in_set_conv_decomp)
    with assms(2) show False ..
  qed
qed

lemma set_strip_where: "set (strip_where P s) \<subseteq> set s"
proof -
  have "set (dropWhile P (rev (dropWhile P s))) \<subseteq> set (rev (dropWhile P s))"
    by (rule set_dropWhileD [THEN subsetI])
  also have "\<dots> \<subseteq> set s"
    by (auto dest: set_dropWhileD)
  finally show ?thesis
    by (simp add: strip_where_def)
qed

lemma strip_where_both:
  assumes "xs \<noteq> []" and "\<not> P (hd xs)" and "\<not> P (last xs)"
    and "\<forall>c \<in> set ls. P c" and "\<forall>c \<in> set ws. P c"
  shows "strip_where P (ls @ xs @ ws) = xs"
proof -
  have "dropWhile P (ls @ xs @ ws) = dropWhile P (xs @ ws)"
    by (rule dropWhile_append2) (use assms(4) in auto)
  moreover from assms(1,2) have "dropWhile P (xs @ ws) = xs @ ws"
    by (cases xs) auto
  ultimately have "strip_where P (ls @ xs @ ws) = strip_where P (xs @ ws)"
    by (simp add: strip_where_def)
  with strip_where_core [OF assms(1,2,3,5)] show ?thesis
    by simp
qed

lemma env_line_skip:
  "strip rt line = [] \<or> startswith line [35] \<Longrightarrow> env_line rt line env = Inr env"
  by (auto simp add: env_line_def)

lemma env_line_assign:
  assumes key: "env_name rt key" and v: "env_value rt quoted v"
    and pre: "pre = [] \<or> pre = u ''export ''" and nl: "nl = [] \<or> nl = [10]"
  shows "env_line rt (pre @ key @ [61] @ (if quoted then [34] @ v @ [34] else v) @ nl) env
           = Inr (env(key \<mapsto> v))"
proof -
  define val where "val = (if quoted then [34] @ v @ [34] else v)"
  define body where "body = key @ 61 # val"
  define line where "line = pre @ body @ nl"
  have line_eq: "pre @ key @ [61] @ (if quoted then [34] @ v @ [34] else v) @ nl = line"
    by (simp add: line_def body_def val_def)
  from key have k: "key \<noteq> []" "61 \<notin> set key" "0 \<notin> set key" "list_all encodable key"
    "\<not> isspace rt (hd key)" "hd key \<noteq> 35" "\<not> startswith key (u ''export '')"
    by (simp_all add: env_name_def)
  from v have vv: "0 \<notin> set v" "list_all encodable v" "v \<noteq> [] \<Longrightarrow> hd v \<noteq> 34 \<and> last v \<noteq> 34"
    "\<not> quoted \<Longrightarrow> v \<noteq> [] \<Longrightarrow> \<not> isspace rt (last v)"
    by (simp_all add: env_value_def)
  have sp: "isspace rt 10" "\<not> isspace rt 61" "\<not> isspace rt 34" "\<not> isspace rt 101"
    by (simp_all add: isspace_def)
  have nlsp: "\<forall>c \<in> set nl. isspace rt c"
    using nl sp(1) by auto
  have body_ne: "body \<noteq> []"
    by (simp add: body_def)
  have hd_body: "hd body = hd key"
    using k(1) by (simp add: body_def)
  have last_val: "val \<noteq> [] \<Longrightarrow> \<not> isspace rt (last val)"
    using vv(4) sp(3) by (auto simp add: val_def split: if_splits)
  have last_body: "\<not> isspace rt (last body)"
    using last_val sp(2) by (cases "val = []") (simp_all add: body_def)
  have strip_body: "strip rt (body @ nl) = body"
    unfolding strip_def
    using body_ne k(5) last_body nlsp by (intro strip_where_core) (simp_all add: hd_body)
  have export: "u ''export '' = [101, 120, 112, 111, 114, 116, 32]"
    by (simp add: u_def)
  have hd_line: "hd line = hd (pre @ body)" "pre @ body \<noteq> []"
    using body_ne by (simp_all add: line_def hd_append)
  have first: "\<not> isspace rt (hd (pre @ body))" "hd (pre @ body) \<noteq> 35"
    using pre k(5,6) sp(4) body_ne by (auto simp add: export hd_body hd_append)
  have last_pb: "\<not> isspace rt (last (pre @ body))"
    using last_body body_ne by simp
  have "strip rt line = pre @ body"
    unfolding strip_def line_def
    using strip_where_core [of "pre @ body" "isspace rt" nl] hd_line(2) first(1) last_pb nlsp
    by simp
  then have not_blank: "strip rt line \<noteq> []"
    using hd_line(2) by simp
  have not_comment: "\<not> startswith line [35]"
    using first(2) hd_line by (cases line) (auto simp add: startswith_def)
  have line1: "(if startswith line (u ''export '') then drop (length (u ''export '')) line else line)
                 = body @ nl"
  proof (cases "pre = []")
    case True
    have "61 \<notin> set (u ''export '')"
      by (simp add: export)
    with k(7) have "\<not> startswith (key @ 61 # (val @ nl)) (u ''export '')"
      by (rule startswith_append_sep)
    with True show ?thesis
      by (simp add: line_def body_def)
  next
    case False
    with pre have "pre = u ''export ''"
      by simp
    then show ?thesis
      by (simp add: line_def startswith_def)
  qed
  have parts: "split_once 61 body = [key, val]"
    unfolding body_def using k(2) by (rule split_once_at)
  have q: "\<forall>c \<in> set [34]. c \<in> set [34::nat]"
    by simp
  have unquote: "strip_chars [34] val = v"
  proof (cases "v = []")
    case True
    then have "\<forall>c \<in> set val. c \<in> set [34::nat]"
      by (simp add: val_def)
    then have "strip_where (\<lambda>c. c \<in> set [34]) val = []"
      by (rule strip_where_all)
    with True show ?thesis
      by (simp add: strip_chars_def)
  next
    case False
    with vv(3) have e: "\<not> hd v \<in> set [34::nat]" "\<not> last v \<in> set [34::nat]"
      by simp_all
    show ?thesis
    proof (cases quoted)
      case True
      with strip_where_both [of v "\<lambda>c. c \<in> set [34]" "[34]" "[34]", OF False e q q] show ?thesis
        by (simp add: strip_chars_def val_def)
    next
      case q0: False
      with strip_where_both [of v "\<lambda>c. c \<in> set [34]" "[]" "[]", OF False e] show ?thesis
        by (simp add: strip_chars_def val_def)
    qed
  qed
  have store: "environ_set env key v = (Inr (env(key \<mapsto> v)) :: 'a pyexc + environ)"
    using k(1-4) vv(1,2) by (simp add: environ_set_def)
  have "env_line rt line env = (Inr (env(key \<mapsto> v)) :: 'a pyexc + environ)"
    unfolding env_line_def using not_blank not_comment
    by (simp add: line1 strip_body parts unquote store Let_def)
  then show ?thesis
    unfolding line_eq .
qed

lemma sample_name_UNIT: "env_name sample_runtime (u ''UNIT'')"
  by (simp add: env_name_def encodable_def isspace_def startswith_def u_def)

lemma sample_value_f: "env_value sample_runtime quoted (u ''f'')"
  by (simp add: env_value_def encodable_def isspace_def u_def)

lemma env_lines_append:
  "env_lines rt (xs @ ys) env =
     (case env_lines rt xs env of (None, env1) \<Rightarrow> env_lines rt ys env1 | (Some e, env1) \<Rightarrow> (Some e, env1))"
  by (induction xs arbitrary: env) (simp_all split: sum.splits)

lemma env_line_no_equals:
  assumes "strip rt line \<noteq> []" and "\<not> startswith line [35]" and "61 \<notin> set line"
  shows "\<exists>e. env_line rt line env = Inl e"
proof -
  define line1 where
    "line1 = (if startswith line (u ''export '') then drop (length (u ''export '')) line else line)"
  have "set line1 \<subseteq> set line"
    by (auto simp add: line1_def dest: in_set_dropD)
  moreover have "set (strip rt line1) \<subseteq> set line1"
    unfolding strip_def by (rule set_strip_where)
  ultimately have "61 \<notin> set (strip rt line1)"
    using assms(3) by auto
  then have "split_once 61 (strip rt line1) = [strip rt line1]"
    by (rule split_once_none)
  with assms(1,2) show ?thesis
    by (simp add: env_line_def line1_def [symmetric] Let_def)
qed

text \<open>
  C10. \<open>load_env_file\<close> lets no exception out, whatever the path and the file are. When
  a line raises (a line that is neither blank nor a comment and has no \<open>=\<close> does), the
  environment is left as the lines before it made it, and the lines after it are not
  read.
\<close>

theorem load_env_file_partial:
  "fst (load_env_file rt fs filepath env) = None
   \<and> (\<forall>before bad after env1 e.
         fs filepath = File (before @ bad # after) \<and> env_lines rt before env = (None, env1)
         \<and> env_line rt bad env1 = Inl e \<longrightarrow>
         snd (load_env_file rt fs filepath env) = env1)
   \<and> (\<forall>line env1. strip rt line \<noteq> [] \<and> \<not> startswith line [35] \<and> 61 \<notin> set line \<longrightarrow>
         (\<exists>e. env_line rt line env1 = Inl e))"
proof (intro conjI allI impI)
  show "fst (load_env_file rt fs filepath env) = None"
    by (simp add: load_env_file_def split: prod.splits option.splits)
next
  fix before bad after env1 e
  assume a: "fs filepath = File (before @ bad # after) \<and> env_lines rt before env = (None, env1)
         \<and> env_line rt bad env1 = Inl e"
  then have "env_lines rt (before @ bad # after) env = (Some e, env1)"
    by (simp add: env_lines_append)
  with a show "snd (load_env_file rt fs filepath env) = env1"
    by (simp add: load_env_file_def load_env_file_try_def)
next
  fix line env1
  assume "strip rt line \<noteq> [] \<and> \<not> startswith line [35] \<and> 61 \<notin> set line"
  then show "\<exists>e. env_line rt line env1 = Inl e"
    by (auto intro: env_line_no_equals)
qed

theorem load_env_file_partial_witness:
  "load_env_file sample_runtime
     (\<lambda>p. File [u ''UNIT'' @ [61] @ u ''f'' @ [10], u ''oops'' @ [10], u ''DAYS=2'' @ [10]])
     (u ''config'') Map.empty
   = (None, [u ''UNIT'' \<mapsto> u ''f''])"
proof -
  let ?fs = "\<lambda>p::ustr. File [u ''UNIT'' @ [61] @ u ''f'' @ [10], u ''oops'' @ [10], u ''DAYS=2'' @ [10]]"
  note t = load_env_file_partial [of sample_runtime ?fs "u ''config''" Map.empty]
  have "strip sample_runtime (u ''oops'' @ [10]) \<noteq> [] \<and> \<not> startswith (u ''oops'' @ [10]) [35]
      \<and> 61 \<notin> set (u ''oops'' @ [10])"
    by (simp add: strip_def strip_where_def isspace_def startswith_def u_def)
  with t obtain e where bad: "env_line sample_runtime (u ''oops'' @ [10]) [u ''UNIT'' \<mapsto> u ''f''] = Inl e"
    by blast
  have "env_line sample_runtime (u ''UNIT'' @ [61] @ u ''f'' @ [10]) Map.empty
      = Inr [u ''UNIT'' \<mapsto> u ''f'']"
    using env_line_assign [where rt = sample_runtime and key = "u ''UNIT''" and quoted = False
        and v = "u ''f''" and pre = "[]" and nl = "[10]" and env = Map.empty,
        OF sample_name_UNIT sample_value_f]
    by simp
  then have good: "env_lines sample_runtime [u ''UNIT'' @ [61] @ u ''f'' @ [10]] Map.empty
      = (None, [u ''UNIT'' \<mapsto> u ''f''])"
    by simp
  have "?fs (u ''config'') = File ([u ''UNIT'' @ [61] @ u ''f'' @ [10]] @ (u ''oops'' @ [10])
      # [u ''DAYS=2'' @ [10]])"
    by simp
  with t good bad have "snd (load_env_file sample_runtime ?fs (u ''config'') Map.empty)
      = [u ''UNIT'' \<mapsto> u ''f'']"
    by blast
  with t show ?thesis
    by (simp add: prod_eq_iff)
qed

section \<open>Properties of the whole script\<close>

lemma env_line_keeps:
  assumes "env_line rt l env = Inr env1" and "env k = Some x"
  shows "\<exists>y. env1 k = Some y"
proof (cases "strip rt l \<noteq> [] \<and> \<not> startswith l [35]")
  case False
  with assms show ?thesis
    by (auto simp add: env_line_def)
next
  case True
  define line1 where
    "line1 = (if startswith l (u ''export '') then drop (length (u ''export '')) l else l)"
  show ?thesis
  proof (cases "61 \<in> set (strip rt line1)")
    case False
    then have "split_once 61 (strip rt line1) = [strip rt line1]"
      by (rule split_once_none)
    with True have "\<exists>e. env_line rt l env = Inl e"
      by (simp add: env_line_def line1_def [symmetric] Let_def)
    with assms(1) show ?thesis
      by auto
  next
    case in_line: True
    then obtain key v where "split_once 61 (strip rt line1) = [key, v]"
      by (simp add: split_once_def)
    with True have "env_line rt l env = environ_set env key (strip_chars [34] v)"
      by (simp add: env_line_def line1_def [symmetric] Let_def)
    with assms(1) have "env1 = env(key \<mapsto> strip_chars [34] v)"
      by (simp add: environ_set_def split: if_splits)
    with assms(2) show ?thesis
      by simp
  qed
qed

lemma env_lines_keeps:
  "env k = Some x \<Longrightarrow> \<exists>y. snd (env_lines rt ls env) k = Some y"
proof (induction ls arbitrary: env x)
  case Nil
  then show ?case by simp
next
  case (Cons l ls)
  show ?case
  proof (cases "env_line rt l env")
    case (Inl e)
    with Cons.prems show ?thesis by simp
  next
    case (Inr env1)
    from env_line_keeps [where env = env and k = k, OF Inr Cons.prems]
    obtain y where "env1 k = Some y" ..
    then have "\<exists>z. snd (env_lines rt ls env1) k = Some z"
      by (rule Cons.IH)
    with Inr show ?thesis by simp
  qed
qed

lemma load_env_file_eq:
  "load_env_file rt fs p env = (None, snd (load_env_file_try rt (fs p) env))"
  by (simp add: load_env_file_def split: prod.splits option.splits)

lemma load_env_file_try_env:
  "snd (load_env_file_try rt f env) =
     (case f of NoFile \<Rightarrow> env | File ls \<Rightarrow> snd (env_lines rt ls env)
      | BrokenFile ls \<Rightarrow> snd (env_lines rt ls env))"
  by (cases f) (simp_all add: load_env_file_try_def split: prod.splits option.splits)

lemma load_env_file_keeps:
  assumes "env k = Some x"
  shows "\<exists>env1 y. load_env_file rt fs p env = (None, env1) \<and> env1 k = Some y"
proof -
  have "\<exists>y. snd (load_env_file_try rt (fs p) env) k = Some y"
    using assms env_lines_keeps [where env = env and k = k and x = x and rt = rt]
    by (cases "fs p") (simp_all add: load_env_file_try_env)
  then show ?thesis
    by (simp add: load_env_file_eq)
qed

text \<open>With \<open>HOME\<close> set, the script gets to the request.\<close>

lemma startup_with_home:
  assumes "env (u ''HOME'') = Some home"
  shows "\<exists>cfg. startup rt fs env = Inr cfg"
proof -
  let ?p1 = "path_join home [u ''.rlocal'', u ''state'', u ''hyde'', u ''staterc'']"
  from load_env_file_keeps [where env = env and k = "u ''HOME''", OF assms] obtain env1 home1 where
    l1: "load_env_file rt fs ?p1 env = (None, env1)" and h1: "env1 (u ''HOME'') = Some home1"
    by blast
  let ?p2 = "path_join home1 [u ''.local'', u ''state'', u ''hyde'', u ''config'']"
  from load_env_file_keeps [where env = env1 and k = "u ''HOME''", OF h1] obtain env2 where
    l2: "load_env_file rt fs ?p2 env1 = (None, env2)"
    by blast
  have e1: "env_path rt env parts = Inr (path_join home parts)" for parts
    by (simp add: env_path_def assms)
  have e2: "env_path rt env1 parts = Inr (path_join home1 parts)" for parts
    by (simp add: env_path_def h1)
  show ?thesis
    by (simp add: startup_def e1 e2 l1 l2 del: path_join.simps)
qed

section \<open>Properties of the forecast loop\<close>

lemma forecast_lines_shape:
  assumes "forecast_lines rt cfg daily i = Inr ls"
  shows "\<exists>tm date l1 l2 l3. py_getitem daily (u ''time'') = Inr tm \<and> py_index tm i = Inr date
    \<and> ls = [[10] @ u ''<b>'' @ day_label i @ u '' ('' @ py_str rt date @ u '')</b>'' @ [10],
            l1, l2, l3]"
  using assms unfolding forecast_lines_def ebind_Inr_iff by blast

lemma forecast_day_Inr:
  assumes "forecast_day rt cfg daily i d = Inr d1"
  shows "\<exists>ls old. forecast_lines rt cfg daily i = Inr ls \<and> map_of d (u ''tooltip'') = Some old
    \<and> d1 = dict_set d (u ''tooltip'') (old @ concat ls)"
proof -
  from assms obtain ls old where ls: "forecast_lines rt cfg daily i = Inr ls"
    and old: "map_of d (u ''tooltip'') = Some old"
    and d1: "d1 = dict_set d (u ''tooltip'') (old @ ls ! 0 @ ls ! 1 @ ls ! 2 @ ls ! 3)"
    by (auto simp add: forecast_day_def attempt_Inr_iff dict_append_Inr_iff map_of_dict_set)
  from forecast_lines_shape [OF ls] obtain l0 l1 l2 l3 where "ls = [l0, l1, l2, l3]"
    by blast
  then have "ls ! 0 @ ls ! 1 @ ls ! 2 @ ls ! 3 = concat ls"
    by simp
  with ls old d1 show ?thesis
    by auto
qed

lemma forecast_loop_blocks:
  assumes "forecast_loop rt cfg daily is d = Inr d1" and "map_of d (u ''tooltip'') = Some old"
  shows "\<exists>blocks. length blocks = length is
    \<and> (\<forall>k < length is. \<exists>ls. forecast_lines rt cfg daily (is ! k) = Inr ls \<and> blocks ! k = concat ls)
    \<and> map_of d1 (u ''tooltip'') = Some (old @ concat blocks)"
  using assms
proof (induction "is" arbitrary: d old)
  case Nil
  then show ?case by simp
next
  case (Cons i rest)
  from Cons.prems(1) obtain d2 where day: "forecast_day rt cfg daily i d = Inr d2"
    and loop: "forecast_loop rt cfg daily rest d2 = Inr d1"
    by (auto split: sum.splits)
  from forecast_day_Inr [OF day] Cons.prems(2) obtain ls where
    ls: "forecast_lines rt cfg daily i = Inr ls"
    and d2: "d2 = dict_set d (u ''tooltip'') (old @ concat ls)"
    by auto
  from d2 have "map_of d2 (u ''tooltip'') = Some (old @ concat ls)"
    by (simp add: map_of_dict_set)
  from Cons.IH [OF loop this] obtain blocks where
    b: "length blocks = length rest"
    "\<forall>k < length rest. \<exists>ls. forecast_lines rt cfg daily (rest ! k) = Inr ls \<and> blocks ! k = concat ls"
    "map_of d1 (u ''tooltip'') = Some ((old @ concat ls) @ concat blocks)"
    by blast
  have "\<forall>k < length (i # rest). \<exists>ls1. forecast_lines rt cfg daily ((i # rest) ! k) = Inr ls1
      \<and> (concat ls # blocks) ! k = concat ls1"
  proof (intro allI impI)
    fix k
    assume "k < length (i # rest)"
    then show "\<exists>ls1. forecast_lines rt cfg daily ((i # rest) ! k) = Inr ls1
      \<and> (concat ls # blocks) ! k = concat ls1"
      using ls b(2) by (cases k) auto
  qed
  moreover have "length (concat ls # blocks) = length (i # rest)"
    using b(1) by simp
  moreover have "map_of d1 (u ''tooltip'') = Some (old @ concat (concat ls # blocks))"
    using b(3) by simp
  ultimately show ?case
    by blast
qed

text \<open>
  C5. When the payload is processed without an exception and \<open>daily["time"]\<close> has \<open>n\<close>
  entries, the tooltip is what the statements before the loop made of it, followed by
  \<open>min(FORECAST_DAYS, n)\<close> blocks; block \<open>i\<close> is made from entry \<open>i\<close> of the daily arrays
  and starts with the label \<open>Today\<close> for \<open>i = 0\<close> and \<open>Day i+1\<close> otherwise, then the date.
\<close>

theorem forecast_blocks:
  assumes "process rt cfg weather [] = Inr d"
  shows "\<exists>current daily tm n d1 d2 header blocks.
      py_getitem weather (u ''current'') = Inr current
      \<and> py_getitem weather (u ''daily'') = Inr daily
      \<and> py_getitem daily (u ''time'') = Inr tm \<and> py_len tm = Inr n
      \<and> set_text rt cfg current [] = Inr d1 \<and> set_tooltip rt cfg current d1 = Inr d2
      \<and> map_of d2 (u ''tooltip'') = Some header
      \<and> map_of d (u ''tooltip'') = Some (header @ concat blocks)
      \<and> length blocks = nat (min (FORECAST_DAYS cfg) (int n))
      \<and> (\<forall>i < length blocks. \<exists>ls date rest.
            forecast_lines rt cfg daily i = Inr ls \<and> blocks ! i = concat ls
            \<and> py_index tm i = Inr date
            \<and> blocks ! i =
                [10] @ u ''<b>'' @ (if i = 0 then u ''Today'' else u ''Day '' @ str_int (int i + 1))
                @ u '' ('' @ py_str rt date @ u '')</b>'' @ [10] @ rest)"
proof -
  from assms obtain current daily d1 d2 where
    c: "py_getitem weather (u ''current'') = Inr current"
    and dl: "py_getitem weather (u ''daily'') = Inr daily"
    and s1: "set_text rt cfg current [] = Inr d1"
    and s2: "set_tooltip rt cfg current d1 = Inr d2"
    and s3: "add_forecast rt cfg daily d2 = Inr d"
    unfolding process_Inr_iff by blast
  from set_tooltip_writes [OF s2] obtain header where h: "map_of d2 (u ''tooltip'') = Some header"
    by (auto simp add: map_of_dict_set)
  from s3 obtain tm n where tm: "py_getitem daily (u ''time'') = Inr tm" and n: "py_len tm = Inr n"
    and loop: "forecast_loop rt cfg daily (forecast_range cfg n) d2 = Inr d"
    by (auto simp add: add_forecast_def attempt_Inr_iff ebind_Inr_iff)
  let ?m = "nat (min (FORECAST_DAYS cfg) (int n))"
  from forecast_loop_blocks [OF loop h] obtain blocks where
    len: "length blocks = ?m"
    and each: "\<forall>k < ?m. \<exists>ls. forecast_lines rt cfg daily ([0..<?m] ! k) = Inr ls \<and> blocks ! k = concat ls"
    and tt: "map_of d (u ''tooltip'') = Some (header @ concat blocks)"
    by (auto simp add: forecast_range_def)
  have "\<forall>i < length blocks. \<exists>ls date rest.
            forecast_lines rt cfg daily i = Inr ls \<and> blocks ! i = concat ls
            \<and> py_index tm i = Inr date
            \<and> blocks ! i =
                [10] @ u ''<b>'' @ (if i = 0 then u ''Today'' else u ''Day '' @ str_int (int i + 1))
                @ u '' ('' @ py_str rt date @ u '')</b>'' @ [10] @ rest"
  proof (intro allI impI)
    fix i
    assume i: "i < length blocks"
    with len each obtain ls where ls: "forecast_lines rt cfg daily i = Inr ls"
      and b: "blocks ! i = concat ls"
      by auto
    from forecast_lines_shape [OF ls] tm obtain date l1 l2 l3 where
      date: "py_index tm i = Inr date"
      and shape: "ls = [[10] @ u ''<b>'' @ day_label i @ u '' ('' @ py_str rt date @ u '')</b>'' @ [10],
            l1, l2, l3]"
      by auto
    from b shape have "blocks ! i =
        [10] @ u ''<b>'' @ (if i = 0 then u ''Today'' else u ''Day '' @ str_int (int i + 1))
        @ u '' ('' @ py_str rt date @ u '')</b>'' @ [10] @ (l1 @ l2 @ l3)"
      by (simp add: day_label_def)
    with ls b date show "\<exists>ls date rest.
            forecast_lines rt cfg daily i = Inr ls \<and> blocks ! i = concat ls
            \<and> py_index tm i = Inr date
            \<and> blocks ! i =
                [10] @ u ''<b>'' @ (if i = 0 then u ''Today'' else u ''Day '' @ str_int (int i + 1))
                @ u '' ('' @ py_str rt date @ u '')</b>'' @ [10] @ rest"
      by blast
  qed
  with c dl tm n s1 s2 h tt len show ?thesis
    by blast
qed

section \<open>Properties of the error reports\<close>

lemma sample_startup: "startup sample_runtime sample_files sample_environ = Inr sample_config"
proof -
  have "resolve_config sample_runtime sample_environ =
     \<lparr> temp_unit = u ''c'', time_format = u ''12h'', windspeed_unit = u ''km/h'',
       show_icon = True, show_location = True, show_today_details = True,
       FORECAST_DAYS = 3, get_location = u ''48.8566,2.3522'',
       lat = 244283 / 5000, lon = 11761 / 5000 \<rparr>"
    by (simp add: sample_environ_def resolve_config_def one_of_def lower_def getenv_def truthy_def
        resolve_forecast_days_def parse_forecast_days_def check_forecast_days_def int_eval
        parse_location_def unpack2_def sample_runtime_def float_eval)
  then have c: "resolve_config sample_runtime sample_environ = sample_config"
    by (simp add: sample_config_eq)
  have h: "sample_environ (u ''HOME'') = Some (u ''/home/u'')"
    by (simp add: sample_environ_def)
  show ?thesis
    by (simp add: startup_def env_path_def h load_env_file_def load_env_file_try_def
          sample_files_def c del: path_join.simps)
qed

text \<open>
  C1, as the code has it. Once the script has its configuration (with \<open>HOME\<close> set it
  does): when \<open>requests.get\<close> raises, when the status code of the reply is one of 400 to
  599, or when \<open>response.json\<close> raises on a reply of another status, the script prints
  the one record with text \<open>Weather Error\<close> and tooltip \<open>Failed to get weather data: msg\<close>
  and exits with code 1. When the reply has another status and a JSON body, and
  processing the body raises an exception, the script prints the one record with text
  \<open>Processing Error\<close> and the text of the exception in the tooltip, writes the traceback
  to standard error after the debug lines, and exits with code 0.
\<close>

theorem error_reports:
  "(env (u ''HOME'') \<noteq> None \<longrightarrow> (\<exists>cfg. startup rt fs env = Inr cfg))
   \<and> (\<forall>cfg msg. startup rt fs env = Inr cfg
          \<and> (net (URL rt cfg) = NoReply msg
              \<or> (\<exists>status body. net (URL rt cfg) = Reply status msg body
                    \<and> 400 \<le> status \<and> status < 600)
              \<or> (\<exists>status err. net (URL rt cfg) = Reply status err (Inl msg)
                    \<and> (status < 400 \<or> 600 \<le> status))) \<longrightarrow>
        main rt fs net env =
          \<lparr> stdout = [[(u ''text'', [0x2753] @ u '' Weather Error''),
                       (u ''tooltip'', u ''Failed to get weather data: '' @ msg)]],
            stderr = debug_lines cfg,
            exit_code = 1 \<rparr>)
   \<and> (\<forall>cfg status err weather e d. startup rt fs env = Inr cfg
          \<and> net (URL rt cfg) = Reply status err (Inr weather)
          \<and> (status < 400 \<or> 600 \<le> status)
          \<and> process rt cfg weather [] = Inl (e, d) \<longrightarrow>
        main rt fs net env =
          \<lparr> stdout = [[(u ''text'', [0x2753] @ u '' Processing Error''),
                       (u ''tooltip'', u ''Failed to process weather data: '' @ exc_str rt e)]],
            stderr = debug_lines cfg @ [u ''ERROR: '' @ format_exc rt e],
            exit_code = 0 \<rparr>)"
proof (intro conjI allI impI)
  assume "env (u ''HOME'') \<noteq> None"
  then show "\<exists>cfg. startup rt fs env = Inr cfg"
    by (auto intro: startup_with_home)
next
  fix cfg msg
  assume a: "startup rt fs env = Inr cfg
          \<and> (net (URL rt cfg) = NoReply msg
              \<or> (\<exists>status body. net (URL rt cfg) = Reply status msg body
                    \<and> 400 \<le> status \<and> status < 600)
              \<or> (\<exists>status err. net (URL rt cfg) = Reply status err (Inl msg)
                    \<and> (status < 400 \<or> 600 \<le> status)))"
  then have "fetch (net (URL rt cfg)) = Inl msg"
    by (auto simp add: fetch_def)
  with a show "main rt fs net env =
          \<lparr> stdout = [[(u ''text'', [0x2753] @ u '' Weather Error''),
                       (u ''tooltip'', u ''Failed to get weather data: '' @ msg)]],
            stderr = debug_lines cfg,
            exit_code = 1 \<rparr>"
    by (simp add: main_def report_def)
next
  fix cfg status err weather e d
  assume a: "startup rt fs env = Inr cfg
          \<and> net (URL rt cfg) = Reply status err (Inr weather)
          \<and> (status < 400 \<or> 600 \<le> status)
          \<and> process rt cfg weather [] = Inl (e, d)"
  then have f: "fetch (net (URL rt cfg)) = Inr weather"
    by (auto simp add: fetch_def)
  from a have "process rt cfg weather [] = Inl (e, d)"
    by simp
  then have "dict_set (dict_set d (u ''text'') ([0x2753] @ u '' Processing Error''))
      (u ''tooltip'') (u ''Failed to process weather data: '' @ exc_str rt e)
      = [(u ''text'', [0x2753] @ u '' Processing Error''),
         (u ''tooltip'', u ''Failed to process weather data: '' @ exc_str rt e)]"
    by (intro error_record process_error_data)
  with a f show "main rt fs net env =
          \<lparr> stdout = [[(u ''text'', [0x2753] @ u '' Processing Error''),
                       (u ''tooltip'', u ''Failed to process weather data: '' @ exc_str rt e)]],
            stderr = debug_lines cfg @ [u ''ERROR: '' @ format_exc rt e],
            exit_code = 0 \<rparr>"
    by (simp add: main_def report_def)
qed

theorem error_reports_witness:
  "main sample_runtime sample_files net_timeout sample_environ
     = \<lparr> stdout = [[(u ''text'', [0x2753] @ u '' Weather Error''),
                    (u ''tooltip'', u ''Failed to get weather data: '' @ u ''timed out'')]],
         stderr = debug_lines sample_config,
         exit_code = 1 \<rparr>
   \<and> main sample_runtime sample_files net_404 sample_environ
     = \<lparr> stdout = [[(u ''text'', [0x2753] @ u '' Weather Error''),
                    (u ''tooltip'', u ''Failed to get weather data: '' @ u ''404 Client Error'')]],
         stderr = debug_lines sample_config,
         exit_code = 1 \<rparr>
   \<and> main sample_runtime sample_files net_empty_object sample_environ
     = \<lparr> stdout = [[(u ''text'', [0x2753] @ u '' Processing Error''),
                    (u ''tooltip'', u ''Failed to process weather data: '' @ [39] @ u ''current''
                       @ [39])]],
         stderr = debug_lines sample_config
           @ [u ''ERROR: '' @ u ''Traceback (most recent call last): '' @ [39] @ u ''current''
                @ [39]],
         exit_code = 0 \<rparr>"
proof -
  let ?e = "PyExc KeyError ''getitem'' [PDict [], PStr (u ''current'')] :: rat pyexc"
  have p: "process sample_runtime sample_config (PDict []) [] = Inl (?e, [])"
    by (simp add: process_def py_getitem_def)
  have x: "exc_str sample_runtime ?e = [39] @ u ''current'' @ [39]"
    "format_exc sample_runtime ?e = u ''Traceback (most recent call last): '' @ [39] @ u ''current'' @ [39]"
    by (simp_all add: sample_runtime_def sample_exc_str_def)
  have n1: "net_timeout (URL sample_runtime sample_config) = NoReply (u ''timed out'')"
    by (simp add: net_timeout_def)
  have n2: "\<exists>status body. net_404 (URL sample_runtime sample_config)
      = Reply status (u ''404 Client Error'') body \<and> 400 \<le> status \<and> status < 600"
    by (simp add: net_404_def)
  have n3: "net_empty_object (URL sample_runtime sample_config) = Reply 200 [] (Inr (PDict []))"
    by (simp add: net_empty_object_def)
  have a: "main sample_runtime sample_files net_timeout sample_environ
     = \<lparr> stdout = [[(u ''text'', [0x2753] @ u '' Weather Error''),
                    (u ''tooltip'', u ''Failed to get weather data: '' @ u ''timed out'')]],
         stderr = debug_lines sample_config,
         exit_code = 1 \<rparr>"
    using error_reports [where rt = sample_runtime and fs = sample_files and env = sample_environ
          and net = net_timeout, THEN conjunct2, THEN conjunct1, rule_format,
          of sample_config "u ''timed out''"]
      sample_startup n1
    by blast
  have b: "main sample_runtime sample_files net_404 sample_environ
     = \<lparr> stdout = [[(u ''text'', [0x2753] @ u '' Weather Error''),
                    (u ''tooltip'', u ''Failed to get weather data: '' @ u ''404 Client Error'')]],
         stderr = debug_lines sample_config,
         exit_code = 1 \<rparr>"
    using error_reports [where rt = sample_runtime and fs = sample_files and env = sample_environ
          and net = net_404, THEN conjunct2, THEN conjunct1, rule_format,
          of sample_config "u ''404 Client Error''"]
      sample_startup n2
    by blast
  have c: "main sample_runtime sample_files net_empty_object sample_environ
     = \<lparr> stdout = [[(u ''text'', [0x2753] @ u '' Processing Error''),
                    (u ''tooltip'', u ''Failed to process weather data: ''
                       @ exc_str sample_runtime ?e)]],
         stderr = debug_lines sample_config @ [u ''ERROR: '' @ format_exc sample_runtime ?e],
         exit_code = 0 \<rparr>"
    using error_reports [where rt = sample_runtime and fs = sample_files and env = sample_environ
          and net = net_empty_object, THEN conjunct2, THEN conjunct2, rule_format,
          of sample_config 200 "[]" "PDict []" ?e "[]"]
      sample_startup n3 p
    by simp
  from a b c show ?thesis
    by (simp add: x)
qed

text \<open>
  A reply with status 300 and the sample payload as its JSON body: \<open>raise_for_status\<close>
  does not raise, the payload is processed, and the script exits with code 0.
\<close>

theorem status_300_is_processed:
  "exit_code (main sample_runtime sample_files net_300 sample_environ) = 0
   \<and> stdout (main sample_runtime sample_files net_300 sample_environ) = [sample_output]"
  by (simp add: main_def sample_startup net_300_def fetch_def report_def sample_process)

section \<open>The forecast loop on three days\<close>

lemma sample_config_2_eq:
  "sample_config_2 =
     \<lparr> temp_unit = u ''c'', time_format = u ''12h'', windspeed_unit = u ''km/h'',
       show_icon = True, show_location = True, show_today_details = True,
       FORECAST_DAYS = 2, get_location = u ''48.8566,2.3522'',
       lat = 244283 / 5000, lon = 11761 / 5000 \<rparr>"
  by (simp add: sample_config_2_def resolve_config_def one_of_def lower_def getenv_def truthy_def
        resolve_forecast_days_def parse_forecast_days_def check_forecast_days_def int_eval
        parse_location_def unpack2_def sample_runtime_def float_eval)

lemma sample_get_temperature_2:
  "get_temperature sample_runtime sample_config_2 sample_current = Inr (u ''20'' @ [0xB0] @ u ''C'')"
  by (simp add: get_temperature_def sample_config_2_eq sample_temperature)
    (simp add: py_str_def render_eval)

lemma sample_set_text_2:
  "set_text sample_runtime sample_config_2 sample_current []
     = Inr [(u ''text'', [0x2600, 0xFE0F] @ u '' 20'' @ [0xB0] @ u ''C | Paris, FR'')]"
  by (simp add: set_text_def sample_get_temperature_2)
    (simp add: sample_config_2_eq sample_current_def py_getitem_def get_weather_icon_def
       dict_get_int WMO_WEATHER_CODES_def dict_append_def dict_read_def u_def)

lemma sample_get_feels_like_2:
  "get_feels_like sample_runtime sample_config_2 sample_current = Inr (u ''20.0'' @ [0xB0] @ u ''C'')"
  by (simp add: get_feels_like_def feels_like_value_def sample_config_2_eq sample_temperature
        sample_humidity py_gt_int_def py_format_1f_def)
    (simp add: sample_runtime_def render_eval)

lemma sample_get_wind_speed_2:
  "get_wind_speed sample_runtime sample_config_2 sample_current = Inr (u ''10 km/h'')"
  by (simp add: get_wind_speed_def sample_config_2_eq sample_current_def py_getitem_def
        py_str_def render_eval)

lemma sample_set_tooltip_2:
  "set_tooltip sample_runtime sample_config_2 sample_current [(u ''text'', t)]
     = Inr [(u ''text'', t), (u ''tooltip'', sample_header)]"
  by (simp add: set_tooltip_def sample_get_temperature_2 sample_get_feels_like_2
        sample_get_wind_speed_2 sample_weathercode sample_humidity get_description_def
        dict_get_int descriptions_def dict_append_def dict_read_def)
    (simp add: sample_header_def py_str_def render_eval)

lemmas forecast_eval = forecast_lines_def daily_temp_def sample_daily_3_def
  py_getitem_def py_index_def get_description_def get_weather_icon_def dict_get_int
  descriptions_def WMO_WEATHER_CODES_def time_of_day_def day_label_def py_str_def render_eval

lemma sample_forecast_lines_0:
  "\<exists>ls. forecast_lines sample_runtime sample_config_2 sample_daily_3 0 = Inr ls
     \<and> concat ls = sample_block_0"
  by (simp add: sample_config_2_eq sample_block_0_def forecast_eval)

lemma sample_forecast_lines_1:
  "\<exists>ls. forecast_lines sample_runtime sample_config_2 sample_daily_3 1 = Inr ls
     \<and> concat ls = sample_block_1"
  by (simp add: sample_config_2_eq sample_block_1_def forecast_eval)

lemma forecast_day_eq:
  assumes "forecast_lines rt cfg daily i = Inr ls" and "map_of d (u ''tooltip'') = Some old"
  shows "forecast_day rt cfg daily i d = Inr (dict_set d (u ''tooltip'') (old @ concat ls))"
proof -
  from forecast_lines_shape [OF assms(1)] obtain l0 l1 l2 l3 where "ls = [l0, l1, l2, l3]"
    by blast
  with assms show ?thesis
    by (simp add: forecast_day_def dict_append_def dict_read_def map_of_dict_set)
qed

lemma sample_forecast_loop_2:
  "forecast_loop sample_runtime sample_config_2 sample_daily_3 [0, 1]
     [(u ''text'', t), (u ''tooltip'', h)]
     = Inr [(u ''text'', t), (u ''tooltip'', h @ sample_block_0 @ sample_block_1)]"
proof -
  from sample_forecast_lines_0 obtain ls0 where
    l0: "forecast_lines sample_runtime sample_config_2 sample_daily_3 0 = Inr ls0"
    and c0: "concat ls0 = sample_block_0"
    by blast
  from sample_forecast_lines_1 obtain ls1 where
    l1: "forecast_lines sample_runtime sample_config_2 sample_daily_3 1 = Inr ls1"
    and c1: "concat ls1 = sample_block_1"
    by blast
  have d0: "forecast_day sample_runtime sample_config_2 sample_daily_3 0
      [(u ''text'', t), (u ''tooltip'', h)]
      = Inr [(u ''text'', t), (u ''tooltip'', h @ sample_block_0)]"
    using forecast_day_eq [OF l0, of "[(u ''text'', t), (u ''tooltip'', h)]" h]
    by (simp add: c0)
  have d1: "forecast_day sample_runtime sample_config_2 sample_daily_3 1
      [(u ''text'', t), (u ''tooltip'', h @ sample_block_0)]
      = Inr [(u ''text'', t), (u ''tooltip'', h @ sample_block_0 @ sample_block_1)]"
    using forecast_day_eq [OF l1, of "[(u ''text'', t), (u ''tooltip'', h @ sample_block_0)]"
        "h @ sample_block_0"]
    by (simp add: c1)
  show ?thesis
    by (simp only: forecast_loop.simps d0 d1 sum.case)
qed

lemma sample_daily_3_time:
  "py_getitem sample_daily_3 (u ''time'')
     = Inr (PList [PStr (u ''2024-05-01''), PStr (u ''2024-05-02''), PStr (u ''2024-05-03'')])"
  by (simp add: sample_daily_3_def py_getitem_def u_def)

lemma sample_process_2:
  "process sample_runtime sample_config_2 sample_weather_3 [] = Inr sample_output_2"
proof -
  have c: "py_getitem sample_weather_3 (u ''current'') = Inr sample_current"
    by (simp add: sample_weather_3_def py_getitem_def u_def)
  have d: "py_getitem sample_weather_3 (u ''daily'') = Inr sample_daily_3"
    by (simp add: sample_weather_3_def py_getitem_def u_def)
  have r: "forecast_range sample_config_2 3 = [0, 1]"
    by (simp add: forecast_range_def sample_config_2_eq upt_rec)
  have n3: "ebind (py_getitem sample_daily_3 (u ''time'')) py_len = (Inr 3 :: rat pyexc + nat)"
    by (simp add: sample_daily_3_time py_len_def)
  have f: "add_forecast sample_runtime sample_config_2 sample_daily_3
      [(u ''text'', t), (u ''tooltip'', h)]
      = Inr [(u ''text'', t), (u ''tooltip'', h @ sample_block_0 @ sample_block_1)]" for t h
    by (simp only: add_forecast_def n3 attempt_Inr r sample_forecast_loop_2)
  show ?thesis
    by (simp add: process_def c d sample_set_text_2 sample_set_tooltip_2 f sample_output_2_def)
qed

theorem forecast_blocks_witness:
  "process sample_runtime sample_config_2 sample_weather_3 [] = Inr sample_output_2
   \<and> FORECAST_DAYS sample_config_2 = 2
   \<and> py_len (PList [PStr (u ''2024-05-01''), PStr (u ''2024-05-02''), PStr (u ''2024-05-03'')]
              :: rat pyval) = Inr 3
   \<and> (\<exists>blocks. map_of sample_output_2 (u ''tooltip'') = Some (sample_header @ concat blocks)
         \<and> length blocks = 2
         \<and> blocks ! 0 = sample_block_0
         \<and> (\<exists>rest. blocks ! 0 = [10] @ u ''<b>'' @ u ''Today'' @ u '' (''
                @ u ''2024-05-01'' @ u '')</b>'' @ [10] @ rest)
         \<and> blocks ! 1 = sample_block_1
         \<and> (\<exists>rest. blocks ! 1 = [10] @ u ''<b>'' @ u ''Day '' @ str_int 2 @ u '' (''
                @ u ''2024-05-02'' @ u '')</b>'' @ [10] @ rest))"
proof -
  from forecast_blocks [OF sample_process_2] obtain current daily tm n d1 d2 header blocks where
    f: "py_getitem sample_weather_3 (u ''current'') = Inr current"
      "py_getitem sample_weather_3 (u ''daily'') = Inr daily"
      "py_getitem daily (u ''time'') = Inr tm" "py_len tm = Inr n"
      "set_text sample_runtime sample_config_2 current [] = Inr d1"
      "set_tooltip sample_runtime sample_config_2 current d1 = Inr d2"
      "map_of d2 (u ''tooltip'') = Some header"
      "map_of sample_output_2 (u ''tooltip'') = Some (header @ concat blocks)"
      "length blocks = nat (min (FORECAST_DAYS sample_config_2) (int n))"
      "\<forall>i < length blocks. \<exists>ls date rest.
            forecast_lines sample_runtime sample_config_2 daily i = Inr ls \<and> blocks ! i = concat ls
            \<and> py_index tm i = Inr date
            \<and> blocks ! i =
                [10] @ u ''<b>'' @ (if i = 0 then u ''Today'' else u ''Day '' @ str_int (int i + 1))
                @ u '' ('' @ py_str sample_runtime date @ u '')</b>'' @ [10] @ rest"
    by blast
  from f(1) have current: "current = sample_current"
    by (simp add: sample_weather_3_def py_getitem_def u_def)
  from f(2) have daily: "daily = sample_daily_3"
    by (simp add: sample_weather_3_def py_getitem_def u_def)
  from f(3) have tm: "tm = PList [PStr (u ''2024-05-01''), PStr (u ''2024-05-02''),
      PStr (u ''2024-05-03'')]"
    by (simp add: daily sample_daily_3_time)
  have len3: "py_len (PList [PStr (u ''2024-05-01''), PStr (u ''2024-05-02''),
      PStr (u ''2024-05-03'')] :: rat pyval) = Inr 3"
    by (simp add: py_len_def)
  with f(4) tm have n: "n = 3"
    by simp
  have days: "FORECAST_DAYS sample_config_2 = 2"
    by (simp add: sample_config_2_eq)
  with f(9) n have len: "length blocks = 2"
    by simp
  from f(5) have "d1 = [(u ''text'', [0x2600, 0xFE0F] @ u '' 20'' @ [0xB0] @ u ''C | Paris, FR'')]"
    by (simp add: current sample_set_text_2)
  with f(6) have "d2 = [(u ''text'', [0x2600, 0xFE0F] @ u '' 20'' @ [0xB0] @ u ''C | Paris, FR''),
      (u ''tooltip'', sample_header)]"
    by (simp add: current sample_set_tooltip_2)
  with f(7) have header: "header = sample_header"
    by simp
  have i0: "(0::nat) < length blocks" and i1: "(1::nat) < length blocks"
    using len by simp_all
  from f(10) [rule_format, OF i0] obtain ls0 date0 rest0 where
    b0: "forecast_lines sample_runtime sample_config_2 daily 0 = Inr ls0" "blocks ! 0 = concat ls0"
      "py_index tm 0 = Inr date0"
    and r0: "blocks ! 0 =
        [10] @ u ''<b>'' @ (if (0::nat) = 0 then u ''Today'' else u ''Day '' @ str_int (int 0 + 1))
        @ u '' ('' @ py_str sample_runtime date0 @ u '')</b>'' @ [10] @ rest0"
    by blast
  from f(10) [rule_format, OF i1] obtain ls1 date1 rest1 where
    b1: "forecast_lines sample_runtime sample_config_2 daily 1 = Inr ls1" "blocks ! 1 = concat ls1"
      "py_index tm 1 = Inr date1"
    and r1: "blocks ! 1 =
        [10] @ u ''<b>'' @ (if (1::nat) = 0 then u ''Today'' else u ''Day '' @ str_int (int 1 + 1))
        @ u '' ('' @ py_str sample_runtime date1 @ u '')</b>'' @ [10] @ rest1"
    by blast
  from b0(1,2) sample_forecast_lines_0 have c0: "blocks ! 0 = sample_block_0"
    by (auto simp add: daily)
  from b1(1,2) sample_forecast_lines_1 have c1: "blocks ! 1 = sample_block_1"
    by (auto simp add: daily)
  from b0(3) have "py_str sample_runtime date0 = u ''2024-05-01''"
    by (auto simp add: tm py_index_def py_str_def)
  with r0 have e0: "\<exists>rest. blocks ! 0 = [10] @ u ''<b>'' @ u ''Today'' @ u '' (''
                @ u ''2024-05-01'' @ u '')</b>'' @ [10] @ rest"
    by auto
  from b1(3) have "py_str sample_runtime date1 = u ''2024-05-02''"
    by (auto simp add: tm py_index_def py_str_def)
  with r1 have e1: "\<exists>rest. blocks ! 1 = [10] @ u ''<b>'' @ u ''Day '' @ str_int 2 @ u '' (''
                @ u ''2024-05-02'' @ u '')</b>'' @ [10] @ rest"
    by auto
  from f(8) header len c0 e0 c1 e1 have "\<exists>blocks.
      map_of sample_output_2 (u ''tooltip'') = Some (sample_header @ concat blocks)
      \<and> length blocks = 2
      \<and> blocks ! 0 = sample_block_0
      \<and> (\<exists>rest. blocks ! 0 = [10] @ u ''<b>'' @ u ''Today'' @ u '' (''
                @ u ''2024-05-01'' @ u '')</b>'' @ [10] @ rest)
      \<and> blocks ! 1 = sample_block_1
      \<and> (\<exists>rest. blocks ! 1 = [10] @ u ''<b>'' @ u ''Day '' @ str_int 2 @ u '' (''
                @ u ''2024-05-02'' @ u '')</b>'' @ [10] @ rest)"
    by blast
  with sample_process_2 days len3 show ?thesis
    by blast
qed

section \<open>Properties of the lines of an environment file\<close>

lemma strip_where_nonempty:
  assumes "c \<in> set s" and "\<not> P c"
  shows "strip_where P s \<noteq> []"
proof -
  let ?t = "dropWhile P s"
  from assms have t: "?t \<noteq> []"
    by (auto simp add: dropWhile_eq_Nil_conv)
  then have "\<not> P (hd ?t)"
    by (rule hd_dropWhile)
  moreover from t have "hd ?t \<in> set (rev ?t)"
    by simp
  ultimately have "dropWhile P (rev ?t) \<noteq> []"
    by (auto simp add: dropWhile_eq_Nil_conv)
  then show ?thesis
    by (simp add: strip_where_def)
qed

lemma startswith_hd:
  assumes "startswith s p" and "p \<noteq> []"
  shows "s \<noteq> [] \<and> hd s = hd p"
  using assms by (cases s; cases p) (auto simp add: startswith_def)

lemma env_line_store:
  assumes key: "env_key rt key" and v: "env_raw_value rt v"
    and pre: "pre = [] \<or> pre = u ''export ''"
    and ws0: "\<forall>c \<in> set ws0. isspace rt c" and ws1: "\<forall>c \<in> set ws1. isspace rt c"
    and start: "pre = [] \<and> ws0 = [] \<longrightarrow> hd key \<noteq> 35 \<and> \<not> startswith key (u ''export '')"
  shows "env_line rt (pre @ ws0 @ key @ [61] @ v @ ws1) env
           = Inr (env(key \<mapsto> strip_chars [34] v))"
proof -
  define body where "body = key @ 61 # v"
  define line where "line = pre @ ws0 @ body @ ws1"
  have line_eq: "pre @ ws0 @ key @ [61] @ v @ ws1 = line"
    by (simp add: line_def body_def)
  from key have k: "key \<noteq> []" "61 \<notin> set key" "0 \<notin> set key" "list_all encodable key"
    "\<not> isspace rt (hd key)"
    by (simp_all add: env_key_def)
  from v have vv: "0 \<notin> set v" "list_all encodable v" "v \<noteq> [] \<Longrightarrow> \<not> isspace rt (last v)"
    by (simp_all add: env_raw_value_def)
  have sp: "\<not> isspace rt 61" "\<not> isspace rt 101" "\<not> isspace rt 35"
    by (simp_all add: isspace_def)
  have export: "u ''export '' = [101, 120, 112, 111, 114, 116, 32]"
    by (simp add: u_def)
  have body_ne: "body \<noteq> []"
    by (simp add: body_def)
  have hd_body: "hd body = hd key"
    using k(1) by (simp add: body_def)
  have last_body: "\<not> isspace rt (last body)"
    using vv(3) sp(1) by (cases "v = []") (simp_all add: body_def)
  have strip_body: "strip rt (ws0 @ body @ ws1) = body"
    unfolding strip_def
    using body_ne k(5) last_body ws0 ws1 by (intro strip_where_both) (simp_all add: hd_body)
  have "hd key \<in> set line"
    using k(1) by (simp add: line_def body_def)
  then have not_blank: "strip rt line \<noteq> []"
    unfolding strip_def using k(5) by (rule strip_where_nonempty)
  have hd_line: "hd line = (if pre \<noteq> [] then 101 else if ws0 \<noteq> [] then hd ws0 else hd key)"
    using pre k(1) by (auto simp add: line_def body_def export hd_append)
  have line_ne: "line \<noteq> []"
    using body_ne by (simp add: line_def)
  have "hd line \<noteq> 35"
  proof (cases "pre = [] \<and> ws0 = []")
    case True
    with start hd_line show ?thesis by simp
  next
    case False
    then have "\<not> isspace rt (hd line) \<and> pre \<noteq> [] \<or> isspace rt (hd line)"
      using hd_line ws0 sp(2) by (cases "pre = []") auto
    with hd_line sp(3) show ?thesis
      by (auto split: if_splits)
  qed
  with line_ne have not_comment: "\<not> startswith line [35]"
    by (cases line) (auto simp add: startswith_def)
  have line1: "(if startswith line (u ''export '') then drop (length (u ''export '')) line else line)
                 = ws0 @ body @ ws1"
  proof (cases "pre = []")
    case True
    have "\<not> startswith line (u ''export '')"
    proof (cases "ws0 = []")
      case ws0_empty: True
      have "61 \<notin> set (u ''export '')"
        by (simp add: export)
      moreover from start True ws0_empty have "\<not> startswith key (u ''export '')"
        by simp
      ultimately have "\<not> startswith (key @ 61 # (v @ ws1)) (u ''export '')"
        by (intro startswith_append_sep)
      with True ws0_empty show ?thesis
        by (simp add: line_def body_def)
    next
      case False
      with True hd_line ws0 have "isspace rt (hd line)"
        by simp
      moreover have "hd (u ''export '') = 101" "u ''export '' \<noteq> []"
        by (simp_all add: export)
      ultimately show ?thesis
        using sp(2) startswith_hd [of line "u ''export ''"] by auto
    qed
    with True show ?thesis
      by (simp add: line_def)
  next
    case False
    with pre have "pre = u ''export ''"
      by simp
    then show ?thesis
      by (simp add: line_def startswith_def)
  qed
  have parts: "split_once 61 body = [key, v]"
    unfolding body_def using k(2) by (rule split_once_at)
  have sub: "set (strip_chars [34] v) \<subseteq> set v"
    unfolding strip_chars_def by (rule set_strip_where)
  with vv(1,2) have "0 \<notin> set (strip_chars [34] v)" "list_all encodable (strip_chars [34] v)"
    by (auto simp add: list_all_iff)
  with k(1-4) have store: "environ_set env key (strip_chars [34] v)
      = (Inr (env(key \<mapsto> strip_chars [34] v)) :: 'a pyexc + environ)"
    by (simp add: environ_set_def)
  have "env_line rt line env = (Inr (env(key \<mapsto> strip_chars [34] v)) :: 'a pyexc + environ)"
    unfolding env_line_def using not_blank not_comment
    by (simp add: line1 strip_body parts store Let_def)
  then show ?thesis
    unfolding line_eq .
qed

lemma strip_quotes:
  assumes "v \<noteq> [] \<longrightarrow> hd v \<noteq> 34 \<and> last v \<noteq> 34"
  shows "strip_chars [34] v = v \<and> strip_chars [34] ([34] @ v @ [34]) = v"
proof (cases "v = []")
  case True
  have "strip_where (\<lambda>c. c \<in> set [34::nat]) [34, 34] = []"
    by (rule strip_where_all) simp
  with True show ?thesis
    by (simp add: strip_chars_def strip_where_def)
next
  case False
  with assms have e: "\<not> hd v \<in> set [34::nat]" "\<not> last v \<in> set [34::nat]"
    by simp_all
  have q: "\<forall>c \<in> set [34]. c \<in> set [34::nat]" "\<forall>c \<in> set []. c \<in> set [34::nat]"
    by simp_all
  from strip_where_both [of v "\<lambda>c. c \<in> set [34]" "[]" "[]", OF False e q(2) q(2)]
    strip_where_both [of v "\<lambda>c. c \<in> set [34]" "[34]" "[34]", OF False e q(1) q(1)]
  show ?thesis
    by (simp add: strip_chars_def)
qed

text \<open>
  C9, as the code has it. For a line that the loop reaches (no line before it raised):
  a line that is blank or starts with \<open>#\<close> leaves the environment as it is. A line
  \<open>KEY=VALUE\<close>, with whitespace around it or not, after \<open>export \<close> at the very start of
  the line or not, sets \<open>KEY\<close> (the text before the first \<open>=\<close>) to \<open>VALUE\<close> (the text
  after it) without the double quotes at its two ends, however many there are. That is
  the value without its quotes when \<open>VALUE\<close> is \<open>v\<close> or \<open>"v"\<close> and \<open>v\<close> neither starts
  nor ends with a double quote. In both cases the loop goes on with the lines after it.
\<close>

theorem env_file_lines:
  "(\<forall>before line after env1.
      (fs filepath = File (before @ line # after) \<or> fs filepath = BrokenFile (before @ line # after))
      \<and> env_lines rt before env = (None, env1) \<longrightarrow>
      ((strip rt line = [] \<or> startswith line [35]) \<longrightarrow>
         load_env_file rt fs filepath env = (None, snd (env_lines rt after env1)))
      \<and> (\<forall>pre ws0 key v ws1.
            line = pre @ ws0 @ key @ [61] @ v @ ws1
            \<and> (pre = [] \<or> pre = u ''export '')
            \<and> list_all (isspace rt) ws0 \<and> list_all (isspace rt) ws1
            \<and> env_key rt key \<and> env_raw_value rt v
            \<and> (pre = [] \<and> ws0 = [] \<longrightarrow> hd key \<noteq> 35 \<and> \<not> startswith key (u ''export '')) \<longrightarrow>
            load_env_file rt fs filepath env
              = (None, snd (env_lines rt after (env1(key \<mapsto> strip_chars [34] v))))))
   \<and> (\<forall>v. (v \<noteq> [] \<longrightarrow> hd v \<noteq> 34 \<and> last v \<noteq> 34) \<longrightarrow>
         strip_chars [34] v = v \<and> strip_chars [34] ([34] @ v @ [34]) = v)"
proof (intro conjI allI impI)
  fix before line after env1
  assume a: "(fs filepath = File (before @ line # after)
        \<or> fs filepath = BrokenFile (before @ line # after))
      \<and> env_lines rt before env = (None, env1)"
  then have load: "load_env_file rt fs filepath env
      = (None, snd (env_lines rt (line # after) env1))"
    by (auto simp add: load_env_file_eq load_env_file_try_env env_lines_append)
  {
    assume "strip rt line = [] \<or> startswith line [35]"
    then have "env_line rt line env1 = Inr env1"
      by (rule env_line_skip)
    with load show "load_env_file rt fs filepath env = (None, snd (env_lines rt after env1))"
      by simp
  }
  {
    fix pre ws0 key v ws1
    assume b: "line = pre @ ws0 @ key @ [61] @ v @ ws1
            \<and> (pre = [] \<or> pre = u ''export '')
            \<and> list_all (isspace rt) ws0 \<and> list_all (isspace rt) ws1
            \<and> env_key rt key \<and> env_raw_value rt v
            \<and> (pre = [] \<and> ws0 = [] \<longrightarrow> hd key \<noteq> 35 \<and> \<not> startswith key (u ''export ''))"
    then have ws: "\<forall>c \<in> set ws0. isspace rt c" "\<forall>c \<in> set ws1. isspace rt c"
      by (simp_all add: list_all_iff)
    from b have k: "env_key rt key" and v: "env_raw_value rt v"
      and pre: "pre = [] \<or> pre = u ''export ''"
      and start: "pre = [] \<and> ws0 = [] \<longrightarrow> hd key \<noteq> 35 \<and> \<not> startswith key (u ''export '')"
      by blast+
    have "env_line rt (pre @ ws0 @ key @ [61] @ v @ ws1) env1
        = Inr (env1(key \<mapsto> strip_chars [34] v))"
      using k v pre ws start by (rule env_line_store)
    with b have "env_line rt line env1 = Inr (env1(key \<mapsto> strip_chars [34] v))"
      by simp
    with load show "load_env_file rt fs filepath env
        = (None, snd (env_lines rt after (env1(key \<mapsto> strip_chars [34] v))))"
      by simp
  }
next
  fix v :: ustr
  assume "v \<noteq> [] \<longrightarrow> hd v \<noteq> 34 \<and> last v \<noteq> 34"
  then have q: "strip_chars [34] v = v \<and> strip_chars [34] ([34] @ v @ [34]) = v"
    by (rule strip_quotes)
  from q show "strip_chars [34] v = v" ..
  from q show "strip_chars [34] ([34] @ v @ [34]) = v" ..
qed

lemma sample_key_UNIT: "env_key sample_runtime (u ''UNIT'')"
  by (simp add: env_key_def encodable_def isspace_def u_def)

lemma sample_key_DAYS: "env_key sample_runtime (u ''DAYS'')"
  by (simp add: env_key_def encodable_def isspace_def u_def)

lemma sample_raw_value_f: "env_raw_value sample_runtime ([34] @ u ''f'' @ [34])"
  by (simp add: env_raw_value_def encodable_def isspace_def u_def)

lemma sample_raw_value_2: "env_raw_value sample_runtime (u ''2'')"
  by (simp add: env_raw_value_def encodable_def isspace_def u_def)

theorem env_file_lines_witness:
  "load_env_file sample_runtime sample_env_files (u ''config'') no_environ
     = (None, [u ''UNIT'' \<mapsto> u ''f'', u ''DAYS'' \<mapsto> u ''2''])
   \<and> env_lines sample_runtime [u ''# units'' @ [10], [10]] no_environ = (None, no_environ)"
proof -
  note t = env_file_lines [of sample_env_files "u ''config''" sample_runtime no_environ]
  let ?unit = "u ''export UNIT='' @ [34] @ u ''f'' @ [34] @ [10]"
  let ?days = "u ''  DAYS=2  '' @ [10]"
  have f: "sample_env_files (u ''config'')
      = File ([u ''# units'' @ [10], [10]] @ ?unit # [?days])"
    by (simp add: sample_env_files_def sample_env_lines_def)
  have "strip sample_runtime (u ''# units'' @ [10]) = [] \<or> startswith (u ''# units'' @ [10]) [35]"
    by (simp add: startswith_def u_def)
  then have l0: "env_line sample_runtime (u ''# units'' @ [10]) no_environ = Inr no_environ"
    by (rule env_line_skip)
  have "strip sample_runtime [10] = [] \<or> startswith [10] [35]"
    by (simp add: strip_def strip_where_def isspace_def)
  then have l1: "env_line sample_runtime [10] no_environ = Inr no_environ"
    by (rule env_line_skip)
  have before: "env_lines sample_runtime [u ''# units'' @ [10], [10]] no_environ = (None, no_environ)"
    by (simp add: l0 l1)
  have unit: "?unit = u ''export '' @ [] @ u ''UNIT'' @ [61] @ ([34] @ u ''f'' @ [34]) @ [10]
      \<and> (u ''export '' = [] \<or> u ''export '' = u ''export '')
      \<and> list_all (isspace sample_runtime) [] \<and> list_all (isspace sample_runtime) [10]
      \<and> env_key sample_runtime (u ''UNIT'') \<and> env_raw_value sample_runtime ([34] @ u ''f'' @ [34])
      \<and> (u ''export '' = [] \<and> ([]::ustr) = [] \<longrightarrow>
           hd (u ''UNIT'') \<noteq> 35 \<and> \<not> startswith (u ''UNIT'') (u ''export ''))"
    using sample_key_UNIT sample_raw_value_f by (simp add: isspace_def u_def)
  from t f before unit
  have step: "load_env_file sample_runtime sample_env_files (u ''config'') no_environ
      = (None, snd (env_lines sample_runtime [?days]
           (no_environ(u ''UNIT'' \<mapsto> strip_chars [34] ([34] @ u ''f'' @ [34])))))"
    by blast
  have "u ''f'' \<noteq> [] \<longrightarrow> hd (u ''f'') \<noteq> 34 \<and> last (u ''f'') \<noteq> 34"
    by (simp add: u_def)
  with t have unquote: "strip_chars [34] ([34] @ u ''f'' @ [34]) = u ''f''"
    by blast
  have days: "env_line sample_runtime ([] @ [32, 32] @ u ''DAYS'' @ [61] @ u ''2'' @ [32, 32, 10])
      (no_environ(u ''UNIT'' \<mapsto> u ''f''))
      = Inr (no_environ(u ''UNIT'' \<mapsto> u ''f'', u ''DAYS'' \<mapsto> strip_chars [34] (u ''2'')))"
    using sample_key_DAYS sample_raw_value_2
    by (rule env_line_store) (simp_all add: isspace_def)
  have "u ''2'' \<noteq> [] \<longrightarrow> hd (u ''2'') \<noteq> 34 \<and> last (u ''2'') \<noteq> 34"
    by (simp add: u_def)
  with t have two: "strip_chars [34] (u ''2'') = u ''2''"
    by blast
  have "?days = [] @ [32, 32] @ u ''DAYS'' @ [61] @ u ''2'' @ [32, 32, 10]"
    by (simp add: u_def)
  with days two have "env_line sample_runtime ?days (no_environ(u ''UNIT'' \<mapsto> u ''f''))
      = Inr (no_environ(u ''UNIT'' \<mapsto> u ''f'', u ''DAYS'' \<mapsto> u ''2''))"
    by simp
  with step unquote before show ?thesis
    by (simp add: no_environ_def)
qed

text \<open>
  Where the code and the sentence of C9 part: the value \<open>say "hi"\<close>, which is not within
  double quotes, loses the double quote at its end; and the line \<open>UNIT=f\<close> after a line
  that raised sets nothing.
\<close>

theorem quote_at_end_is_lost:
  "snd (load_env_file sample_runtime quoted_word_files (u ''config'') no_environ) (u ''MSG'')
     = Some (u ''say '' @ [34] @ u ''hi'')
   \<and> snd (load_env_file sample_runtime quoted_word_files (u ''config'') no_environ) (u ''MSG'')
     \<noteq> Some (u ''say '' @ [34] @ u ''hi'' @ [34])
   \<and> snd (load_env_file sample_runtime raising_files (u ''config'') no_environ) (u ''UNIT'') = None"
proof -
  have key: "env_key sample_runtime (u ''MSG'')"
    by (simp add: env_key_def encodable_def isspace_def u_def)
  have v: "env_raw_value sample_runtime (u ''say '' @ [34] @ u ''hi'' @ [34])"
    by (simp add: env_raw_value_def encodable_def isspace_def u_def)
  have "env_line sample_runtime ([] @ [] @ u ''MSG'' @ [61] @ (u ''say '' @ [34] @ u ''hi'' @ [34]) @ [10])
      no_environ
      = Inr (no_environ(u ''MSG'' \<mapsto> strip_chars [34] (u ''say '' @ [34] @ u ''hi'' @ [34])))"
    using key v by (rule env_line_store) (simp_all add: isspace_def startswith_def u_def)
  moreover have "strip_chars [34] (u ''say '' @ [34] @ u ''hi'' @ [34]) = u ''say '' @ [34] @ u ''hi''"
    by (simp add: strip_chars_def strip_where_def u_def)
  moreover have "u ''MSG=say '' @ [34] @ u ''hi'' @ [34] @ [10]
      = [] @ [] @ u ''MSG'' @ [61] @ (u ''say '' @ [34] @ u ''hi'' @ [34]) @ [10]"
    by (simp add: u_def)
  ultimately have "env_line sample_runtime (u ''MSG=say '' @ [34] @ u ''hi'' @ [34] @ [10]) no_environ
      = Inr (no_environ(u ''MSG'' \<mapsto> u ''say '' @ [34] @ u ''hi''))"
    by simp
  then have msg: "snd (load_env_file sample_runtime quoted_word_files (u ''config'') no_environ)
      = no_environ(u ''MSG'' \<mapsto> u ''say '' @ [34] @ u ''hi'')"
    by (simp add: load_env_file_eq load_env_file_try_env quoted_word_files_def)
  have "strip sample_runtime (u ''oops'' @ [10]) \<noteq> []" "\<not> startswith (u ''oops'' @ [10]) [35]"
    "61 \<notin> set (u ''oops'' @ [10])"
    by (simp_all add: strip_def strip_where_def isspace_def startswith_def u_def)
  then obtain e :: "rat pyexc" where "env_line sample_runtime (u ''oops'' @ [10]) no_environ = Inl e"
    using env_line_no_equals by blast
  then have "snd (load_env_file sample_runtime raising_files (u ''config'') no_environ) = no_environ"
    by (simp add: load_env_file_eq load_env_file_try_env raising_files_def)
  with msg show ?thesis
    by (simp add: no_environ_def)
qed

end
